theory Spec2Isabelle
  imports Main "HOL-Library.AList_Mapping"
begin

section \<open>Errors\<close>

text \<open>
  Go errors are values. The broker builds them with \<^verbatim>\<open>errors.New\<close> and
  \<^verbatim>\<open>errors.Wrap\<close>, returns the sentinel errors of the \<^verbatim>\<open>brokerapi\<close> package, and
  receives \<^verbatim>\<open>apierrors.StatusError\<close> values from the Kubernetes client.
\<close>

datatype StatusReason =
    StatusReasonNotFound
  | StatusReasonAlreadyExists
  | StatusReasonBadRequest
  | StatusReasonInternalError

datatype error =
    New string
  | Wrap error string
  | ErrInstanceAlreadyExists
  | ErrInstanceDoesNotExist
  | ErrBindingAlreadyExists
  | ErrBindingDoesNotExist
  | StatusError StatusReason string

text \<open>\<^verbatim>\<open>apierrors.IsNotFound\<close>: the reason of a status error is "not found".\<close>

fun IsNotFound :: "error \<Rightarrow> bool" where
  "IsNotFound (StatusError StatusReasonNotFound msg) = True"
| "IsNotFound e = False"

text \<open>The names the specification gives to the messages of broker.go.\<close>

definition PlanIDRequired :: error where
  "PlanIDRequired = New ''plan_id required''"

definition PlanNotRecognized :: error where
  "PlanNotRecognized = New ''plan_id not recognized''"

definition PlanHasNoDefaultSize :: error where
  "PlanHasNoDefaultSize = New ''plan doesn't have a default size''"

definition InvalidResourceState :: error where
  "InvalidResourceState = New ''pvc has a nil storage class''"

section \<open>Go maps\<close>

text \<open>
  A \<^verbatim>\<open>map[string]string\<close> may be nil. Reading a nil map behaves like reading an
  empty one; \<^verbatim>\<open>len\<close> of a nil map is 0.
\<close>

type_synonym string_map = "(string, string) mapping option"

definition index :: "string_map \<Rightarrow> string \<Rightarrow> string option" where
  "index m k = (case m of None \<Rightarrow> None | Some kv \<Rightarrow> Mapping.lookup kv k)"

definition len0 :: "string_map \<Rightarrow> bool" where
  "len0 m = (case m of None \<Rightarrow> True | Some kv \<Rightarrow> Mapping.is_empty kv)"

section \<open>The resource store: persistent volume claims behind the Kubernetes client\<close>

text \<open>
  The fields of \<^verbatim>\<open>corev1.PersistentVolumeClaim\<close> that the broker reads or writes.
  The parsed \<^verbatim>\<open>resource.Quantity\<close> is a type parameter.
\<close>

record 'q PersistentVolumeClaim =
  Namespace :: string
  Name :: string
  Labels :: string_map
  Annotations :: string_map
  StorageClassName :: "string option"
  AccessModes :: "string list"
  Requests :: "(string, 'q) mapping"

text \<open>
  The client is the interface \<^verbatim>\<open>kubernetes.Interface\<close>; its implementation is not part
  of the repository. It is modelled as the in-memory client the repository's tests use
  (\<^verbatim>\<open>fake.NewSimpleClientset\<close>): an object tracker, a reaction chain that can make a
  call fail, and the record of the calls made.
\<close>

datatype action =
    GetAction string string
  | CreateAction string string
  | UpdateAction string string
  | DeleteAction string string

record 'q Clientset =
  tracker :: "'q PersistentVolumeClaim list"
  reactor :: "action \<Rightarrow> error option"
  actions :: "action list"

definition named :: "string \<Rightarrow> string \<Rightarrow> 'q PersistentVolumeClaim \<Rightarrow> bool" where
  "named ns name p \<longleftrightarrow> PersistentVolumeClaim.Namespace p = ns \<and> PersistentVolumeClaim.Name p = name"

definition tracker_get ::
  "'q Clientset \<Rightarrow> string \<Rightarrow> string \<Rightarrow> 'q PersistentVolumeClaim option" where
  "tracker_get c ns name = find (named ns name) (tracker c)"

definition invoke :: "'q Clientset \<Rightarrow> action \<Rightarrow> 'q Clientset" where
  "invoke c a = c\<lparr>actions := actions c @ [a]\<rparr>"

definition PVC_Get ::
  "'q Clientset \<Rightarrow> string \<Rightarrow> string \<Rightarrow> 'q Clientset \<times> (error + 'q PersistentVolumeClaim)" where
  "PVC_Get c ns name =
     (let c' = invoke c (GetAction ns name) in
      case reactor c (GetAction ns name) of
        Some err \<Rightarrow> (c', Inl err)
      | None \<Rightarrow>
          (case tracker_get c ns name of
             None \<Rightarrow> (c', Inl (StatusError StatusReasonNotFound name))
           | Some p \<Rightarrow> (c', Inr p)))"

text \<open>
  The tracker propagates the namespace of the request to an object that has none and
  refuses an object of another namespace.
\<close>

definition propagate :: "string \<Rightarrow> 'q PersistentVolumeClaim \<Rightarrow> 'q PersistentVolumeClaim" where
  "propagate ns pvc =
     (if PersistentVolumeClaim.Namespace pvc = [] then pvc\<lparr>PersistentVolumeClaim.Namespace := ns\<rparr>
      else pvc)"

definition PVC_Create ::
  "'q Clientset \<Rightarrow> string \<Rightarrow> 'q PersistentVolumeClaim
     \<Rightarrow> 'q Clientset \<times> (error + 'q PersistentVolumeClaim)" where
  "PVC_Create c ns pvc =
     (let a = CreateAction ns (PersistentVolumeClaim.Name pvc);
          c' = invoke c a;
          obj = propagate ns pvc in
      case reactor c a of
        Some err \<Rightarrow> (c', Inl err)
      | None \<Rightarrow>
          if PersistentVolumeClaim.Namespace obj \<noteq> ns
          then (c', Inl (StatusError StatusReasonBadRequest (PersistentVolumeClaim.Name pvc)))
          else (case tracker_get c ns (PersistentVolumeClaim.Name pvc) of
                  Some old \<Rightarrow>
                    (c', Inl (StatusError StatusReasonAlreadyExists
                                (PersistentVolumeClaim.Name pvc)))
                | None \<Rightarrow> (c'\<lparr>tracker := tracker c @ [obj]\<rparr>, Inr obj)))"

definition PVC_Update ::
  "'q Clientset \<Rightarrow> string \<Rightarrow> 'q PersistentVolumeClaim
     \<Rightarrow> 'q Clientset \<times> (error + 'q PersistentVolumeClaim)" where
  "PVC_Update c ns pvc =
     (let a = UpdateAction ns (PersistentVolumeClaim.Name pvc);
          c' = invoke c a;
          obj = propagate ns pvc in
      case reactor c a of
        Some err \<Rightarrow> (c', Inl err)
      | None \<Rightarrow>
          if PersistentVolumeClaim.Namespace obj \<noteq> ns
          then (c', Inl (StatusError StatusReasonBadRequest (PersistentVolumeClaim.Name pvc)))
          else (case tracker_get c ns (PersistentVolumeClaim.Name pvc) of
                  None \<Rightarrow>
                    (c', Inl (StatusError StatusReasonNotFound (PersistentVolumeClaim.Name pvc)))
                | Some old \<Rightarrow>
                    (c'\<lparr>tracker :=
                          map (\<lambda>p. if named ns (PersistentVolumeClaim.Name pvc) p then obj else p)
                            (tracker c)\<rparr>,
                     Inr obj)))"

definition PVC_Delete :: "'q Clientset \<Rightarrow> string \<Rightarrow> string \<Rightarrow> 'q Clientset \<times> error option" where
  "PVC_Delete c ns name =
     (let a = DeleteAction ns name;
          c' = invoke c a in
      case reactor c a of
        Some err \<Rightarrow> (c', Some err)
      | None \<Rightarrow>
          (case tracker_get c ns name of
             None \<Rightarrow> (c', Some (StatusError StatusReasonNotFound name))
           | Some old \<Rightarrow>
               (c'\<lparr>tracker := filter (\<lambda>p. \<not> named ns name p) (tracker c)\<rparr>, None)))"

section \<open>Configuration\<close>

text \<open>
  Modelled from the spec: the fields \<open>DefaultSize\<close> and \<open>DefaultAccessMode\<close> of a plan.
  broker.go reads both, the declaration of \<^verbatim>\<open>config.Plan\<close> at hand does not have them;
  the specification lists a default size and a default access mode among the attributes
  of a plan. The other fields are those of the declaration; the storage class is a
  string there, so a claim that \<open>Provision\<close> creates always has a storage class.
\<close>

record Plan =
  ID :: string
  Name :: string
  Description :: string
  StorageClass :: string
  Free :: bool
  DefaultSize :: string
  DefaultAccessMode :: string

record ServiceConfiguration =
  ServiceName :: string
  ServiceID :: string
  Plans :: "Plan list"
  Description :: string
  LongDescription :: string
  ProviderDisplayName :: string
  DocumentationURL :: string
  SupportURL :: string
  DisplayName :: string
  IconImage :: string

record AuthConfiguration =
  Password :: string
  Username :: string

record Config =
  ServiceConfiguration :: ServiceConfiguration
  AuthConfiguration :: AuthConfiguration
  Host :: string
  Port :: string
  Namespace :: string

section \<open>The broker\<close>

text \<open>
  Every method of the broker takes the broker, whose client is the state of the store
  before the call, and returns the client after the call together with the Go result
  \<^verbatim>\<open>(value, err)\<close> as a sum: \<open>Inl err\<close> when \<open>err\<close> is not nil, \<open>Inr value\<close> otherwise.
  The context arguments carry no data the broker reads and are left out.
\<close>

record 'q KubeVolumeBroker =
  KubeClient :: "'q Clientset"
  Config :: Config

record userMountConfiguration =
  Directory :: string

record userConfiguration =
  Size :: string
  AccessMode :: string

text \<open>
  The library functions the broker calls on strings are parameters of the model:
  \<^verbatim>\<open>json.Unmarshal\<close> into a zero value of each of the two configuration structs, and
  \<^verbatim>\<open>resource.ParseQuantity\<close>.
\<close>

record 'q externals =
  Unmarshal_userConfiguration :: "string \<Rightarrow> error + userConfiguration"
  Unmarshal_userMountConfiguration :: "string \<Rightarrow> error + userMountConfiguration"
  ParseQuantity :: "string \<Rightarrow> error + 'q"

definition namespace_of :: "'q KubeVolumeBroker \<Rightarrow> string" where
  "namespace_of b = Config.Namespace (Config b)"

definition plans_of :: "'q KubeVolumeBroker \<Rightarrow> Plan list" where
  "plans_of b = ServiceConfiguration.Plans (Config.ServiceConfiguration (Config b))"

text \<open>
  \<open>instanceExists\<close> returns \<open>(false, nil, nil)\<close> as \<open>Inr None\<close>, \<open>(true, pvc, nil)\<close> as
  \<open>Inr (Some pvc)\<close> and \<open>(false, nil, err)\<close> as \<open>Inl err\<close>.
\<close>

definition instanceExists ::
  "'q KubeVolumeBroker \<Rightarrow> string \<Rightarrow> 'q Clientset \<times> (error + 'q PersistentVolumeClaim option)" where
  "instanceExists b instanceID =
     (case PVC_Get (KubeClient b) (namespace_of b) instanceID of
        (c, Inl err) \<Rightarrow>
          if IsNotFound err then (c, Inr None)
          else (c, Inl (Wrap err ''error listing persistent volumes''))
      | (c, Inr pvc) \<Rightarrow> (c, Inr (Some pvc)))"

definition bindingIDAnnotation :: "string \<Rightarrow> string" where
  "bindingIDAnnotation bindingID = ''eirini-broker-binding-'' @ bindingID"

definition isBindingIDAnnotation :: "string \<Rightarrow> bool" where
  "isBindingIDAnnotation annotationKey \<longleftrightarrow>
     take (length ''eirini-broker-binding-'') annotationKey = ''eirini-broker-binding-''"

subsection \<open>Update and the last-operation polls\<close>

record UpdateDetails =
  ServiceID :: string
  PlanID :: string
  RawParameters :: string

record UpdateServiceSpec =
  IsAsync :: bool
  DashboardURL :: string
  OperationData :: string

record PollDetails =
  ServiceID :: string
  PlanID :: string
  OperationData :: string

record LastOperation =
  State :: string
  Description :: string

definition UpdateServiceSpec_zero :: UpdateServiceSpec where
  "UpdateServiceSpec_zero =
     \<lparr>UpdateServiceSpec.IsAsync = False, UpdateServiceSpec.DashboardURL = [],
      UpdateServiceSpec.OperationData = []\<rparr>"

definition LastOperation_zero :: LastOperation where
  "LastOperation_zero = \<lparr>LastOperation.State = [], LastOperation.Description = []\<rparr>"

definition LastBindingOperation ::
  "'q KubeVolumeBroker \<Rightarrow> string \<Rightarrow> string \<Rightarrow> PollDetails
     \<Rightarrow> 'q Clientset \<times> (error + LastOperation)" where
  "LastBindingOperation b instanceID bindingID details = (KubeClient b, Inr LastOperation_zero)"

definition LastOperation ::
  "'q KubeVolumeBroker \<Rightarrow> string \<Rightarrow> PollDetails \<Rightarrow> 'q Clientset \<times> (error + LastOperation)" where
  "LastOperation b instanceID details = (KubeClient b, Inr LastOperation_zero)"

definition Update ::
  "'q KubeVolumeBroker \<Rightarrow> string \<Rightarrow> UpdateDetails \<Rightarrow> bool
     \<Rightarrow> 'q Clientset \<times> (error + UpdateServiceSpec)" where
  "Update b instanceID details asyncAllowed = (KubeClient b, Inr UpdateServiceSpec_zero)"

subsection \<open>Provision\<close>

record ProvisionDetails =
  ServiceID :: string
  PlanID :: string
  OrganizationGUID :: string
  SpaceGUID :: string
  RawParameters :: string

record ProvisionedServiceSpec =
  IsAsync :: bool
  DashboardURL :: string
  OperationData :: string

definition userConfiguration_zero :: userConfiguration where
  "userConfiguration_zero = \<lparr>Size = [], AccessMode = []\<rparr>"

definition Provision ::
  "'q externals \<Rightarrow> 'q KubeVolumeBroker \<Rightarrow> string \<Rightarrow> ProvisionDetails \<Rightarrow> bool
     \<Rightarrow> 'q Clientset \<times> (error + ProvisionedServiceSpec)" where
  "Provision X b instanceID serviceDetails asyncAllowed =
     (if ProvisionDetails.PlanID serviceDetails = []
      then (KubeClient b, Inl (New ''plan_id required''))
      else
        case find (\<lambda>p. Plan.ID p = ProvisionDetails.PlanID serviceDetails) (plans_of b) of
          None \<Rightarrow> (KubeClient b, Inl (New ''plan_id not recognized''))
        | Some plan \<Rightarrow>
           (case instanceExists b instanceID of
              (c, Inl err) \<Rightarrow> (c, Inl (Wrap err ''error provisioning''))
            | (c, Inr (Some pvc)) \<Rightarrow> (c, Inl ErrInstanceAlreadyExists)
            | (c, Inr None) \<Rightarrow>
               (case (if ProvisionDetails.RawParameters serviceDetails \<noteq> []
                      then Unmarshal_userConfiguration X
                             (ProvisionDetails.RawParameters serviceDetails)
                      else Inr userConfiguration_zero) of
                  Inl err \<Rightarrow> (c, Inl (Wrap err ''error unmarshaling json user configuration''))
                | Inr userConfig \<Rightarrow>
                   (let size = Size userConfig;
                        size = (if size = [] then DefaultSize plan else size) in
                    if size = [] then (c, Inl (New ''plan doesn't have a default size''))
                    else
                      let accessMode = AccessMode userConfig;
                          accessMode =
                            (if accessMode = [] then DefaultAccessMode plan else accessMode);
                          accessMode = (if accessMode = [] then ''ReadWriteMany'' else accessMode)
                      in
                      case ParseQuantity X size of
                        Inl err \<Rightarrow> (c, Inl (Wrap err ''invalid quantity string''))
                      | Inr quantity \<Rightarrow>
                         (case PVC_Create c (namespace_of b)
                                 \<lparr>PersistentVolumeClaim.Namespace = [],
                                  PersistentVolumeClaim.Name = instanceID,
                                  Labels = Some (Mapping.of_alist
                                    [(''service-id'', ProvisionDetails.ServiceID serviceDetails),
                                     (''plan-id'', ProvisionDetails.PlanID serviceDetails),
                                     (''organization-id'', OrganizationGUID serviceDetails),
                                     (''space-id'', SpaceGUID serviceDetails)]),
                                  Annotations = None,
                                  StorageClassName = Some (StorageClass plan),
                                  AccessModes = [accessMode],
                                  Requests = Mapping.update ''storage'' quantity Mapping.empty\<rparr> of
                            (c', Inl err) \<Rightarrow> (c', Inl (Wrap err ''error provisioning''))
                          | (c', Inr created) \<Rightarrow>
                              (c', Inr \<lparr>ProvisionedServiceSpec.IsAsync = False,
                                        ProvisionedServiceSpec.DashboardURL = [],
                                        ProvisionedServiceSpec.OperationData = []\<rparr>))))))"

subsection \<open>Deprovision\<close>

record DeprovisionDetails =
  PlanID :: string
  ServiceID :: string

record DeprovisionServiceSpec =
  IsAsync :: bool
  OperationData :: string

definition DeprovisionServiceSpec_zero :: DeprovisionServiceSpec where
  "DeprovisionServiceSpec_zero =
     \<lparr>DeprovisionServiceSpec.IsAsync = False, DeprovisionServiceSpec.OperationData = []\<rparr>"

definition Deprovision ::
  "'q KubeVolumeBroker \<Rightarrow> string \<Rightarrow> DeprovisionDetails \<Rightarrow> bool
     \<Rightarrow> 'q Clientset \<times> (error + DeprovisionServiceSpec)" where
  "Deprovision b instanceID details asyncAllowed =
     (case instanceExists b instanceID of
        (c, Inl err) \<Rightarrow> (c, Inl (Wrap err ''error deprovisioning''))
      | (c, Inr None) \<Rightarrow> (c, Inl ErrInstanceDoesNotExist)
      | (c, Inr (Some pvc)) \<Rightarrow>
         (case PVC_Delete c (namespace_of b) instanceID of
            (c', Some err) \<Rightarrow>
              (c', Inl (Wrap err ''error deleting persistent volume claim for deprovisioning''))
          | (c', None) \<Rightarrow> (c', Inr DeprovisionServiceSpec_zero)))"

subsection \<open>Bind and Unbind\<close>

record SharedDevice =
  VolumeId :: string

record VolumeMount =
  Driver :: string
  ContainerDir :: string
  Mode :: string
  DeviceType :: string
  Device :: SharedDevice

record BindDetails =
  AppGUID :: string
  PlanID :: string
  ServiceID :: string
  RawParameters :: string

record Binding =
  Credentials :: "(string \<times> string) list"
  VolumeMounts :: "VolumeMount list"

definition userMountConfiguration_zero :: userMountConfiguration where
  "userMountConfiguration_zero = \<lparr>Directory = []\<rparr>"

definition Bind ::
  "'q externals \<Rightarrow> 'q KubeVolumeBroker \<Rightarrow> string \<Rightarrow> string \<Rightarrow> BindDetails \<Rightarrow> bool
     \<Rightarrow> 'q Clientset \<times> (error + Binding)" where
  "Bind X b instanceID bindingID details asyncAllowed =
     (case instanceExists b instanceID of
        (c, Inl err) \<Rightarrow> (c, Inl (Wrap err ''error binding''))
      | (c, Inr None) \<Rightarrow> (c, Inl ErrInstanceDoesNotExist)
      | (c, Inr (Some pvc)) \<Rightarrow>
         (if index (Annotations pvc) (bindingIDAnnotation bindingID) \<noteq> None
          then (c, Inl ErrBindingAlreadyExists)
          else
            case (if BindDetails.RawParameters details \<noteq> []
                  then Unmarshal_userMountConfiguration X (BindDetails.RawParameters details)
                  else Inr userMountConfiguration_zero) of
              Inl err \<Rightarrow> (c, Inl (Wrap err ''error unmarshaling json user configuration''))
            | Inr userMount \<Rightarrow>
               (let containerDir = Directory userMount;
                    containerDir =
                      (if containerDir = [] then ''/var/vcap/data/'' @ bindingID
                       else containerDir);
                    annotations =
                      (case Annotations pvc of None \<Rightarrow> Mapping.empty | Some kv \<Rightarrow> kv);
                    pvc = pvc\<lparr>Annotations :=
                      Some (Mapping.update (bindingIDAnnotation bindingID) containerDir
                              annotations)\<rparr>
                in
                case PVC_Update c (namespace_of b) pvc of
                  (c', Inl err) \<Rightarrow>
                    (c', Inl (Wrap err
                       ''error updating persistent volume claim annotations for binding''))
                | (c', Inr updated) \<Rightarrow>
                   (case StorageClassName pvc of
                      None \<Rightarrow> (c', Inl (New ''pvc has a nil storage class''))
                    | Some storageClassName \<Rightarrow>
                        (c', Inr
                           \<lparr>Credentials = [(''volume_id'', PersistentVolumeClaim.Name pvc)],
                            VolumeMounts =
                              [\<lparr>Driver = storageClassName,
                                ContainerDir = containerDir,
                                Mode = ''rw'',
                                DeviceType = ''shared'',
                                Device = \<lparr>VolumeId = PersistentVolumeClaim.Name pvc\<rparr>\<rparr>]\<rparr>)))))"

record UnbindDetails =
  PlanID :: string
  ServiceID :: string

record UnbindSpec =
  IsAsync :: bool
  OperationData :: string

definition UnbindSpec_zero :: UnbindSpec where
  "UnbindSpec_zero = \<lparr>UnbindSpec.IsAsync = False, UnbindSpec.OperationData = []\<rparr>"

definition Unbind ::
  "'q KubeVolumeBroker \<Rightarrow> string \<Rightarrow> string \<Rightarrow> UnbindDetails \<Rightarrow> bool
     \<Rightarrow> 'q Clientset \<times> (error + UnbindSpec)" where
  "Unbind b instanceID bindingID details asyncAllowed =
     (case instanceExists b instanceID of
        (c, Inl err) \<Rightarrow> (c, Inl (Wrap err ''error unbinding''))
      | (c, Inr None) \<Rightarrow> (c, Inl ErrInstanceDoesNotExist)
      | (c, Inr (Some pvc)) \<Rightarrow>
         (if len0 (Annotations pvc) then (c, Inl ErrBindingDoesNotExist)
          else if index (Annotations pvc) (bindingIDAnnotation bindingID) = None
          then (c, Inl ErrBindingDoesNotExist)
          else
            let pvc = pvc\<lparr>Annotations :=
                  map_option (Mapping.delete (bindingIDAnnotation bindingID)) (Annotations pvc)\<rparr>
            in
            case PVC_Update c (namespace_of b) pvc of
              (c', Inl err) \<Rightarrow>
                (c', Inl (Wrap err
                   ''error updating persistent volume claim annotations for unbinding''))
            | (c', Inr updated) \<Rightarrow> (c', Inr UnbindSpec_zero)))"

subsection \<open>GetInstance and GetBinding\<close>

record GetInstanceDetailsSpec =
  ServiceID :: string
  PlanID :: string
  DashboardURL :: string

definition GetInstance ::
  "'q KubeVolumeBroker \<Rightarrow> string \<Rightarrow> 'q Clientset \<times> (error + GetInstanceDetailsSpec)" where
  "GetInstance b instanceID =
     (case instanceExists b instanceID of
        (c, Inl err) \<Rightarrow> (c, Inl (Wrap err ''error getting instance''))
      | (c, Inr None) \<Rightarrow> (c, Inl ErrInstanceDoesNotExist)
      | (c, Inr (Some pvc)) \<Rightarrow>
         (case index (Labels pvc) ''plan-id'' of
            None \<Rightarrow> (c, Inl (New ''plan-id label missing from pvc''))
          | Some planID \<Rightarrow>
             (case index (Labels pvc) ''service-id'' of
                None \<Rightarrow> (c, Inl (New ''service-id label missing from pvc''))
              | Some serviceID \<Rightarrow>
                  (c, Inr \<lparr>GetInstanceDetailsSpec.ServiceID = serviceID,
                           GetInstanceDetailsSpec.PlanID = planID,
                           GetInstanceDetailsSpec.DashboardURL = []\<rparr>))))"

record GetBindingSpec =
  Credentials :: "(string \<times> string) list"
  VolumeMounts :: "VolumeMount list"

definition GetBinding ::
  "'q KubeVolumeBroker \<Rightarrow> string \<Rightarrow> string \<Rightarrow> 'q Clientset \<times> (error + GetBindingSpec)" where
  "GetBinding b instanceID bindingID =
     (case instanceExists b instanceID of
        (c, Inl err) \<Rightarrow> (c, Inl (Wrap err ''error getting binding''))
      | (c, Inr None) \<Rightarrow> (c, Inl ErrInstanceDoesNotExist)
      | (c, Inr (Some pvc)) \<Rightarrow>
         (if len0 (Annotations pvc) then (c, Inl ErrBindingDoesNotExist)
          else
            case index (Annotations pvc) (bindingIDAnnotation bindingID) of
              None \<Rightarrow> (c, Inl ErrBindingDoesNotExist)
            | Some containerDir \<Rightarrow>
               (case StorageClassName pvc of
                  None \<Rightarrow> (c, Inl (New ''pvc has a nil storage class''))
                | Some storageClassName \<Rightarrow>
                    (c, Inr
                       \<lparr>GetBindingSpec.Credentials = [],
                        GetBindingSpec.VolumeMounts =
                          [\<lparr>Driver = storageClassName,
                            ContainerDir = containerDir,
                            Mode = ''rw'',
                            DeviceType = ''shared'',
                            Device = \<lparr>VolumeId = PersistentVolumeClaim.Name pvc\<rparr>\<rparr>]\<rparr>))))"

subsection \<open>Services\<close>

text \<open>
  \<^verbatim>\<open>ServicePlan.Free\<close> is a pointer to a bool, and the loop of \<open>Services\<close> stores
  \<^verbatim>\<open>&plan.Free\<close> in it, the address of a field of the loop variable. What a listed plan
  says about its free tier is what that address holds when the listing is read, so the
  variables whose address is taken live in an explicit heap. The module declares
  \<^verbatim>\<open>go 1.14\<close> in go.mod: the variable of a \<^verbatim>\<open>range\<close> loop is one variable for
  the whole loop, assigned anew at each iteration.
\<close>

type_synonym addr = nat

datatype bool_ptr = Free_of addr

record heap =
  vars :: "(addr, Plan) mapping"
  brk :: addr

definition new_var :: "heap \<Rightarrow> Plan \<Rightarrow> heap \<times> addr" where
  "new_var h v = (h\<lparr>vars := Mapping.update (brk h) v (vars h), brk := Suc (brk h)\<rparr>, brk h)"

definition assign :: "heap \<Rightarrow> addr \<Rightarrow> Plan \<Rightarrow> heap" where
  "assign h a v = h\<lparr>vars := Mapping.update a v (vars h)\<rparr>"

fun load_bool :: "heap \<Rightarrow> bool_ptr \<Rightarrow> bool option" where
  "load_bool h (Free_of a) = map_option Plan.Free (Mapping.lookup (vars h) a)"

definition Plan_zero :: Plan where
  "Plan_zero =
     \<lparr>Plan.ID = [], Plan.Name = [], Plan.Description = [], StorageClass = [], Plan.Free = False,
      DefaultSize = [], DefaultAccessMode = []\<rparr>"

record ServicePlan =
  ID :: string
  Name :: string
  Description :: string
  Free :: "bool_ptr option"

definition ServicePlan_zero :: ServicePlan where
  "ServicePlan_zero =
     \<lparr>ServicePlan.ID = [], ServicePlan.Name = [], ServicePlan.Description = [],
      ServicePlan.Free = None\<rparr>"

record ServiceMetadata =
  DisplayName :: string
  ImageUrl :: string
  LongDescription :: string
  ProviderDisplayName :: string
  DocumentationUrl :: string
  SupportUrl :: string

record Service =
  ID :: string
  Name :: string
  Description :: string
  Bindable :: bool
  Tags :: "string list"
  Plans :: "ServicePlan list"
  Requires :: "string list"
  Metadata :: ServiceMetadata

definition PermissionVolumeMount :: string where
  "PermissionVolumeMount = ''volume_mount''"

text \<open>
  The loop \<^verbatim>\<open>for idx, plan := range Plans\<close>: \<open>a\<close> is the address of the variable
  \<open>plan\<close>, the second argument the plans still to visit, \<open>idx\<close> the index of the first
  of them.
\<close>

fun Services_loop ::
  "addr \<Rightarrow> Plan list \<Rightarrow> nat \<Rightarrow> heap \<Rightarrow> ServicePlan list \<Rightarrow> heap \<times> ServicePlan list" where
  "Services_loop a [] idx h planList = (h, planList)"
| "Services_loop a (p # ps) idx h planList =
     (let h = assign h a p;
          planList = planList[idx :=
            \<lparr>ServicePlan.ID = Plan.ID p,
             ServicePlan.Name = Plan.Name p,
             ServicePlan.Description = Plan.Description p,
             ServicePlan.Free = Some (Free_of a)\<rparr>]
      in Services_loop a ps (Suc idx) h planList)"

definition Services :: "'q KubeVolumeBroker \<Rightarrow> heap \<Rightarrow> heap \<times> (error + Service list)" where
  "Services b h =
     (let cfg = Config.ServiceConfiguration (Config b);
          planList = replicate (length (ServiceConfiguration.Plans cfg)) ServicePlan_zero;
          (h, a) = new_var h Plan_zero;
          (h, planList) = Services_loop a (ServiceConfiguration.Plans cfg) 0 h planList
      in (h, Inr
           [\<lparr>Service.ID = ServiceConfiguration.ServiceID cfg,
             Service.Name = ServiceConfiguration.ServiceName cfg,
             Service.Description = ServiceConfiguration.Description cfg,
             Bindable = True,
             Tags = [''eirini'', ''kubernetes'', ''storage''],
             Service.Plans = planList,
             Requires = [PermissionVolumeMount],
             Metadata =
               \<lparr>ServiceMetadata.DisplayName = ServiceConfiguration.DisplayName cfg,
                ImageUrl = ''data:image/png;base64,'' @ IconImage cfg,
                ServiceMetadata.LongDescription = ServiceConfiguration.LongDescription cfg,
                ServiceMetadata.ProviderDisplayName =
                  ServiceConfiguration.ProviderDisplayName cfg,
                DocumentationUrl = DocumentationURL cfg,
                SupportUrl = SupportURL cfg\<rparr>\<rparr>]))"

text \<open>The free-tier boolean a reader of the listing sees: the pointer, dereferenced.\<close>

definition free_tier :: "heap \<Rightarrow> ServicePlan \<Rightarrow> bool option" where
  "free_tier h sp = (case ServicePlan.Free sp of None \<Rightarrow> None | Some ptr \<Rightarrow> load_bool h ptr)"

section \<open>Vocabulary of the statements\<close>

text \<open>What the store holds under a key of a claim's annotations.\<close>

definition annotation_of :: "'q Clientset \<Rightarrow> string \<Rightarrow> string \<Rightarrow> string \<Rightarrow> string option" where
  "annotation_of c ns name key =
     (case tracker_get c ns name of None \<Rightarrow> None | Some p \<Rightarrow> index (Annotations p) key)"

text \<open>The mount directory \<open>Bind\<close> resolves, and the claim it sends to the store.\<close>

definition containerDir_of :: "userMountConfiguration \<Rightarrow> string \<Rightarrow> string" where
  "containerDir_of um bindingID =
     (if Directory um = [] then ''/var/vcap/data/'' @ bindingID else Directory um)"

definition annotate ::
  "'q PersistentVolumeClaim \<Rightarrow> string \<Rightarrow> string \<Rightarrow> 'q PersistentVolumeClaim" where
  "annotate pvc key v =
     pvc\<lparr>Annotations :=
       Some (Mapping.update key v
               (case Annotations pvc of None \<Rightarrow> Mapping.empty | Some kv \<Rightarrow> kv))\<rparr>"

text \<open>The plan \<open>Services\<close> lists for a configured plan, its free flag at the address given.\<close>

definition listed :: "addr \<Rightarrow> Plan \<Rightarrow> ServicePlan" where
  "listed a p =
     \<lparr>ServicePlan.ID = Plan.ID p, ServicePlan.Name = Plan.Name p,
      ServicePlan.Description = Plan.Description p, ServicePlan.Free = Some (Free_of a)\<rparr>"

definition unannotate :: "'q PersistentVolumeClaim \<Rightarrow> string \<Rightarrow> 'q PersistentVolumeClaim" where
  "unannotate pvc key = pvc\<lparr>Annotations := map_option (Mapping.delete key) (Annotations pvc)\<rparr>"

text \<open>The claim \<open>Provision\<close> asks the store to create, as the store holds it.\<close>

definition claim_for ::
  "string \<Rightarrow> string \<Rightarrow> ProvisionDetails \<Rightarrow> Plan \<Rightarrow> string \<Rightarrow> 'q \<Rightarrow> 'q PersistentVolumeClaim" where
  "claim_for ns instanceID d plan accessMode quantity =
     \<lparr>PersistentVolumeClaim.Namespace = ns,
      PersistentVolumeClaim.Name = instanceID,
      Labels = Some (Mapping.of_alist
        [(''service-id'', ProvisionDetails.ServiceID d),
         (''plan-id'', ProvisionDetails.PlanID d),
         (''organization-id'', OrganizationGUID d),
         (''space-id'', SpaceGUID d)]),
      Annotations = None,
      StorageClassName = Some (StorageClass plan),
      AccessModes = [accessMode],
      Requests = Mapping.update ''storage'' quantity Mapping.empty\<rparr>"

definition ProvisionedServiceSpec_zero :: ProvisionedServiceSpec where
  "ProvisionedServiceSpec_zero =
     \<lparr>ProvisionedServiceSpec.IsAsync = False, ProvisionedServiceSpec.DashboardURL = [],
      ProvisionedServiceSpec.OperationData = []\<rparr>"

text \<open>
  The rule of the specification for the size and the access mode of a new instance, in
  the specification's words: the user's value, else the plan's default, else (for the
  access mode) the fallback.
\<close>

definition spec_effective_size :: "userConfiguration \<Rightarrow> Plan \<Rightarrow> string" where
  "spec_effective_size uc plan = (if Size uc \<noteq> [] then Size uc else DefaultSize plan)"

definition spec_effective_access_mode :: "userConfiguration \<Rightarrow> Plan \<Rightarrow> string" where
  "spec_effective_access_mode uc plan =
     (if AccessMode uc \<noteq> [] then AccessMode uc
      else if DefaultAccessMode plan \<noteq> [] then DefaultAccessMode plan
      else ''ReadWriteMany'')"

section \<open>The scenario of the specification\<close>

text \<open>
  A catalog with the single plan p1 (class gold, default size 1Gi), a client that holds
  the given claims and answers every call (\<^verbatim>\<open>fake.NewSimpleClientset(objects...)\<close>),
  and stand-ins for the two library parsers that know the inputs of the scenario:
  the quantity is kept as the string it was written as.
\<close>

definition NewSimpleClientset :: "'q PersistentVolumeClaim list \<Rightarrow> 'q Clientset" where
  "NewSimpleClientset objects = \<lparr>tracker = objects, reactor = (\<lambda>a. None), actions = []\<rparr>"

definition scenario_plan :: Plan where
  "scenario_plan =
     \<lparr>Plan.ID = ''p1'', Plan.Name = [], Plan.Description = [], StorageClass = ''gold'',
      Plan.Free = False, DefaultSize = ''1Gi'', DefaultAccessMode = []\<rparr>"

definition scenario_config :: "Plan list \<Rightarrow> Config" where
  "scenario_config plans =
     \<lparr>Config.ServiceConfiguration =
        \<lparr>ServiceName = ''eirini-persi'', ServiceConfiguration.ServiceID = ''s1'',
         ServiceConfiguration.Plans = plans,
         ServiceConfiguration.Description = [], ServiceConfiguration.LongDescription = [],
         ServiceConfiguration.ProviderDisplayName = [], DocumentationURL = [],
         SupportURL = [], ServiceConfiguration.DisplayName = [], IconImage = []\<rparr>,
      AuthConfiguration = \<lparr>Password = [], Username = []\<rparr>,
      Host = [], Port = [], Config.Namespace = ''eirini''\<rparr>"

definition scenario_broker :: "'q PersistentVolumeClaim list \<Rightarrow> 'q KubeVolumeBroker" where
  "scenario_broker objects =
     \<lparr>KubeClient = NewSimpleClientset objects, Config = scenario_config [scenario_plan]\<rparr>"

definition scenario_externals :: "string externals" where
  "scenario_externals =
     \<lparr>Unmarshal_userConfiguration =
        (\<lambda>raw. if raw = ''{\"size\":\"2Gi\",\"access_mode\":\"ReadOnlyMany\"}''
               then Inr \<lparr>Size = ''2Gi'', AccessMode = ''ReadOnlyMany''\<rparr>
               else Inl (New ''invalid character'')),
      Unmarshal_userMountConfiguration =
        (\<lambda>raw. if raw = ''{\"dir\":\"/mnt\"}''
               then Inr \<lparr>Directory = ''/mnt''\<rparr>
               else Inl (New ''invalid character'')),
      ParseQuantity = Inr\<rparr>"

definition scenario_provision :: ProvisionDetails where
  "scenario_provision =
     \<lparr>ProvisionDetails.ServiceID = ''s1'', ProvisionDetails.PlanID = ''p1'',
      OrganizationGUID = ''o1'', SpaceGUID = ''sp1'', ProvisionDetails.RawParameters = []\<rparr>"

definition scenario_bind :: BindDetails where
  "scenario_bind =
     \<lparr>AppGUID = ''a1'', BindDetails.PlanID = ''p1'', BindDetails.ServiceID = ''s1'',
      BindDetails.RawParameters = ''{\"dir\":\"/mnt\"}''\<rparr>"

definition scenario_unbind :: UnbindDetails where
  "scenario_unbind = \<lparr>UnbindDetails.PlanID = ''p1'', UnbindDetails.ServiceID = ''s1''\<rparr>"

definition scenario_deprovision :: DeprovisionDetails where
  "scenario_deprovision =
     \<lparr>DeprovisionDetails.PlanID = ''p1'', DeprovisionDetails.ServiceID = ''s1''\<rparr>"

text \<open>
  The two plans of the configuration test (\<^verbatim>\<open>test_config.yml\<close>, as the test reads them
  back): the first is free, the second is not. And a heap with no variable yet.
\<close>

definition test_plans :: "Plan list" where
  "test_plans =
     [\<lparr>Plan.ID = ''someid'', Plan.Name = ''somename'',
       Plan.Description = ''this is a description'', StorageClass = ''persistent'',
       Plan.Free = True, DefaultSize = [], DefaultAccessMode = []\<rparr>,
      \<lparr>Plan.ID = ''someotherid'', Plan.Name = ''someothername'',
       Plan.Description = ''this is another description'', StorageClass = ''gold'',
       Plan.Free = False, DefaultSize = [], DefaultAccessMode = []\<rparr>]"

definition test_broker :: "unit KubeVolumeBroker" where
  "test_broker = \<lparr>KubeClient = NewSimpleClientset [], Config = scenario_config test_plans\<rparr>"

definition heap_empty :: heap where
  "heap_empty = \<lparr>vars = Mapping.empty, brk = 0\<rparr>"

text \<open>The claim that stands for instance i1 once it is provisioned, with its capacity.\<close>

definition scenario_claim :: "'q \<Rightarrow> 'q PersistentVolumeClaim" where
  "scenario_claim quantity =
     \<lparr>PersistentVolumeClaim.Namespace = ''eirini'',
      PersistentVolumeClaim.Name = ''i1'',
      Labels = Some (Mapping.of_alist
        [(''service-id'', ''s1''), (''plan-id'', ''p1''),
         (''organization-id'', ''o1''), (''space-id'', ''sp1'')]),
      Annotations = None,
      StorageClassName = Some ''gold'',
      AccessModes = [''ReadWriteMany''],
      Requests = Mapping.update ''storage'' quantity Mapping.empty\<rparr>"

section \<open>Unfolding the client and the scenario\<close>

lemmas client_defs =
  PVC_Get_def PVC_Create_def PVC_Update_def PVC_Delete_def invoke_def tracker_get_def named_def
  propagate_def NewSimpleClientset_def

lemmas scenario_defs =
  scenario_broker_def scenario_config_def scenario_plan_def scenario_externals_def
  scenario_provision_def scenario_bind_def scenario_unbind_def scenario_deprovision_def
  namespace_of_def plans_of_def


section \<open>The client: what a call leaves behind\<close>

lemma tracker_invoke: "tracker (invoke c a) = tracker c"
  by (simp add: invoke_def)

lemma reactor_invoke: "reactor (invoke c a) = reactor c"
  by (simp add: invoke_def)

lemma actions_invoke: "actions (invoke c a) = actions c @ [a]"
  by (simp add: invoke_def)

lemma tracker_get_invoke: "tracker_get (invoke c a) ns name = tracker_get c ns name"
  by (simp add: tracker_get_def invoke_def)

lemma fst_PVC_Get: "fst (PVC_Get c ns name) = invoke c (GetAction ns name)"
  by (simp add: PVC_Get_def Let_def split: option.splits)

lemma PVC_Get_found:
  "snd (PVC_Get c ns name) = Inr pvc \<longleftrightarrow>
     reactor c (GetAction ns name) = None \<and> tracker_get c ns name = Some pvc"
  by (simp add: PVC_Get_def Let_def split: option.splits)

lemma PVC_Get_fresh:
  "snd (PVC_Get (NewSimpleClientset objects) ns name) =
     (case find (named ns name) objects of
        None \<Rightarrow> Inl (StatusError StatusReasonNotFound name)
      | Some p \<Rightarrow> Inr p)"
  by (simp add: PVC_Get_def NewSimpleClientset_def tracker_get_def Let_def split: option.splits)

lemma tracker_get_named: "tracker_get c ns name = Some pvc \<Longrightarrow> named ns name pvc"
  by (auto simp: tracker_get_def find_Some_iff)

lemma instanceExists_found:
  assumes "snd (PVC_Get (KubeClient b) (namespace_of b) i) = Inr pvc"
  shows "instanceExists b i =
           (invoke (KubeClient b) (GetAction (namespace_of b) i), Inr (Some pvc))"
  using assms fst_PVC_Get [of "KubeClient b" "namespace_of b" i]
  by (cases "PVC_Get (KubeClient b) (namespace_of b) i") (simp add: instanceExists_def)

lemma instanceExists_absent:
  assumes "snd (PVC_Get (KubeClient b) (namespace_of b) i) = Inl e" and "IsNotFound e"
  shows "instanceExists b i = (invoke (KubeClient b) (GetAction (namespace_of b) i), Inr None)"
  using assms fst_PVC_Get [of "KubeClient b" "namespace_of b" i]
  by (cases "PVC_Get (KubeClient b) (namespace_of b) i") (simp add: instanceExists_def)

lemma isBindingIDAnnotation_bindingIDAnnotation:
  "isBindingIDAnnotation (bindingIDAnnotation bindingID)"
  by (simp add: isBindingIDAnnotation_def bindingIDAnnotation_def)

lemma scenario_namespace: "namespace_of (scenario_broker objects) = ''eirini''"
  by (simp add: namespace_of_def scenario_broker_def scenario_config_def)

lemma scenario_plans: "plans_of (scenario_broker objects) = [scenario_plan]"
  by (simp add: plans_of_def scenario_broker_def scenario_config_def)

lemma scenario_client: "KubeClient (scenario_broker objects) = NewSimpleClientset objects"
  by (simp add: scenario_broker_def)

lemma scenario_claim_named: "named ''eirini'' ''i1'' (scenario_claim q)"
  by (simp add: named_def scenario_claim_def)

section \<open>Operations that do nothing\<close>

text \<open>
  C9. For every input, Update, LastOperation and LastBindingOperation return an empty
  result and no error, and the client they return is the one they were given: its record
  of calls has no new entry, so the store was neither read nor written.
\<close>

theorem noop_operations:
  "Update b i ud a = (KubeClient b, Inr UpdateServiceSpec_zero) \<and>
   LastOperation b i pd = (KubeClient b, Inr LastOperation_zero) \<and>
   LastBindingOperation b i bid pd = (KubeClient b, Inr LastOperation_zero)"
  by (simp add: Update_def LastOperation_def LastBindingOperation_def)

section \<open>Provision: resolving the plan\<close>

text \<open>
  C8. Provision with an empty plan identifier fails with PlanIDRequired, and with a
  non-empty plan identifier that no plan of the catalog has, with PlanNotRecognized. In
  both cases the client comes back as it was given: no call at all reached the store, so
  no resource was created.
\<close>

theorem Provision_plan_errors:
  "(ProvisionDetails.PlanID d = [] \<longrightarrow>
      Provision X b i d a = (KubeClient b, Inl PlanIDRequired)) \<and>
   (ProvisionDetails.PlanID d \<noteq> [] \<and> ProvisionDetails.PlanID d \<notin> Plan.ID ` set (plans_of b) \<longrightarrow>
      Provision X b i d a = (KubeClient b, Inl PlanNotRecognized))"
proof (intro conjI impI)
  assume "ProvisionDetails.PlanID d = []"
  then show "Provision X b i d a = (KubeClient b, Inl PlanIDRequired)"
    by (simp add: Provision_def PlanIDRequired_def)
next
  assume h: "ProvisionDetails.PlanID d \<noteq> [] \<and>
    ProvisionDetails.PlanID d \<notin> Plan.ID ` set (plans_of b)"
  then have "find (\<lambda>p. Plan.ID p = ProvisionDetails.PlanID d) (plans_of b) = None"
    by (auto simp: find_None_iff image_iff)
  with h show "Provision X b i d a = (KubeClient b, Inl PlanNotRecognized)"
    by (simp add: Provision_def PlanNotRecognized_def)
qed

theorem Provision_plan_errors_witness:
  "Provision scenario_externals (scenario_broker [])  ''i1''
     (scenario_provision\<lparr>ProvisionDetails.PlanID := []\<rparr>) False =
     (NewSimpleClientset [], Inl PlanIDRequired) \<and>
   Provision scenario_externals (scenario_broker []) ''i1''
     (scenario_provision\<lparr>ProvisionDetails.PlanID := ''foo''\<rparr>) False =
     (NewSimpleClientset [], Inl PlanNotRecognized)"
  using Provision_plan_errors [of "scenario_provision\<lparr>ProvisionDetails.PlanID := []\<rparr>"
      scenario_externals "scenario_broker []" "''i1''" False]
    Provision_plan_errors [of "scenario_provision\<lparr>ProvisionDetails.PlanID := ''foo''\<rparr>"
      scenario_externals "scenario_broker []" "''i1''" False]
  by (simp add: scenario_plans scenario_client scenario_plan_def)

section \<open>Provision: an instance that exists\<close>

text \<open>
  C1. When the store returns a claim for the instance identifier, Provision with a
  non-empty plan identifier that the catalog knows returns InstanceAlreadyExists. The
  one call it makes is the fetch: the tracker of the client is unchanged, so the
  existing claim is, and no create or update was issued.
\<close>

theorem Provision_existing_instance:
  assumes "ProvisionDetails.PlanID d \<noteq> []"
    and "find (\<lambda>p. Plan.ID p = ProvisionDetails.PlanID d) (plans_of b) = Some plan"
    and "snd (PVC_Get (KubeClient b) (namespace_of b) i) = Inr pvc"
  shows "Provision X b i d a =
           (invoke (KubeClient b) (GetAction (namespace_of b) i), Inl ErrInstanceAlreadyExists) \<and>
         tracker (fst (Provision X b i d a)) = tracker (KubeClient b) \<and>
         actions (fst (Provision X b i d a)) =
           actions (KubeClient b) @ [GetAction (namespace_of b) i]"
  using assms by (simp add: Provision_def instanceExists_found tracker_invoke actions_invoke)

theorem Provision_existing_instance_witness:
  "Provision scenario_externals (scenario_broker [scenario_claim ''1Gi'']) ''i1'' scenario_provision False =
     (invoke (NewSimpleClientset [scenario_claim ''1Gi'']) (GetAction ''eirini'' ''i1''),
      Inl ErrInstanceAlreadyExists) \<and>
   tracker (fst (Provision scenario_externals (scenario_broker [scenario_claim ''1Gi'']) ''i1''
                   scenario_provision False)) = [scenario_claim ''1Gi'']"
proof -
  have plan_id: "ProvisionDetails.PlanID scenario_provision \<noteq> []"
    by (simp add: scenario_provision_def)
  have plan: "find (\<lambda>p. Plan.ID p = ProvisionDetails.PlanID scenario_provision)
                (plans_of (scenario_broker [scenario_claim ''1Gi''])) = Some scenario_plan"
    by (simp add: scenario_plans scenario_plan_def scenario_provision_def)
  have stored: "snd (PVC_Get (KubeClient (scenario_broker [scenario_claim ''1Gi'']))
                  (namespace_of (scenario_broker [scenario_claim ''1Gi''])) ''i1'') = Inr (scenario_claim ''1Gi'')"
    by (simp add: scenario_client scenario_namespace PVC_Get_fresh scenario_claim_named)
  show ?thesis
    using Provision_existing_instance [OF plan_id plan stored, of scenario_externals False]
    by (simp add: scenario_client scenario_namespace NewSimpleClientset_def tracker_invoke)
qed

section \<open>Operations on an instance that does not exist\<close>

text \<open>
  C2. When the store answers the fetch of the instance identifier with "not found",
  each of Deprovision, Bind, Unbind, GetInstance and GetBinding returns
  InstanceDoesNotExist, and the only call made is that fetch: the tracker is unchanged.
\<close>

theorem absent_instance:
  assumes "snd (PVC_Get (KubeClient b) (namespace_of b) i) = Inl e" and "IsNotFound e"
  shows "Deprovision b i dd a1 =
           (invoke (KubeClient b) (GetAction (namespace_of b) i), Inl ErrInstanceDoesNotExist) \<and>
         Bind X b i bid bd a2 =
           (invoke (KubeClient b) (GetAction (namespace_of b) i), Inl ErrInstanceDoesNotExist) \<and>
         Unbind b i bid ud a3 =
           (invoke (KubeClient b) (GetAction (namespace_of b) i), Inl ErrInstanceDoesNotExist) \<and>
         GetInstance b i =
           (invoke (KubeClient b) (GetAction (namespace_of b) i), Inl ErrInstanceDoesNotExist) \<and>
         GetBinding b i bid =
           (invoke (KubeClient b) (GetAction (namespace_of b) i), Inl ErrInstanceDoesNotExist) \<and>
         tracker (invoke (KubeClient b) (GetAction (namespace_of b) i)) = tracker (KubeClient b)"
  using assms
  by (simp add: Deprovision_def Bind_def Unbind_def GetInstance_def GetBinding_def
        instanceExists_absent tracker_invoke)

theorem absent_instance_witness:
  "snd (PVC_Get (NewSimpleClientset [scenario_claim ''1Gi'']) ''eirini'' ''foo'') =
     Inl (StatusError StatusReasonNotFound ''foo'') \<and>
   snd (Deprovision (scenario_broker [scenario_claim ''1Gi'']) ''foo'' scenario_deprovision False) =
     Inl ErrInstanceDoesNotExist \<and>
   snd (Bind scenario_externals (scenario_broker [scenario_claim ''1Gi'']) ''foo'' ''b1'' scenario_bind
          False) = Inl ErrInstanceDoesNotExist \<and>
   snd (Unbind (scenario_broker [scenario_claim ''1Gi'']) ''foo'' ''b1'' scenario_unbind False) =
     Inl ErrInstanceDoesNotExist \<and>
   snd (GetInstance (scenario_broker [scenario_claim ''1Gi'']) ''foo'') = Inl ErrInstanceDoesNotExist \<and>
   snd (GetBinding (scenario_broker [scenario_claim ''1Gi'']) ''foo'' ''b1'') =
     Inl ErrInstanceDoesNotExist \<and>
   tracker (fst (Deprovision (scenario_broker [scenario_claim ''1Gi'']) ''foo'' scenario_deprovision
                   False)) = [scenario_claim ''1Gi'']"
proof -
  have absent: "snd (PVC_Get (KubeClient (scenario_broker [scenario_claim ''1Gi'']))
                  (namespace_of (scenario_broker [scenario_claim ''1Gi''])) ''foo'') =
                Inl (StatusError StatusReasonNotFound ''foo'')"
    by (simp add: scenario_client scenario_namespace PVC_Get_fresh named_def scenario_claim_def)
  have not_found: "IsNotFound (StatusError StatusReasonNotFound ''foo'')"
    by simp
  show ?thesis
    using absent absent_instance [OF absent not_found, of scenario_deprovision False
        scenario_externals "''b1''" scenario_bind False scenario_unbind False]
    by (simp add: scenario_client scenario_namespace NewSimpleClientset_def tracker_invoke)
qed


section \<open>The client: updates\<close>

lemma propagate_same: "PersistentVolumeClaim.Namespace pvc = ns \<Longrightarrow> propagate ns pvc = pvc"
  by (simp add: propagate_def)

lemma find_replace:
  "find P xs = Some p \<Longrightarrow> P obj \<Longrightarrow> find P (map (\<lambda>x. if P x then obj else x) xs) = Some obj"
  by (induction xs) (auto split: if_splits)

lemma PVC_Update_accepted:
  assumes "tracker_get c ns (PersistentVolumeClaim.Name pvc) = Some old"
    and "PersistentVolumeClaim.Namespace pvc = ns"
    and "reactor c (UpdateAction ns (PersistentVolumeClaim.Name pvc)) = None"
  shows "PVC_Update c ns pvc =
           ((invoke c (UpdateAction ns (PersistentVolumeClaim.Name pvc)))
              \<lparr>tracker := map (\<lambda>p. if named ns (PersistentVolumeClaim.Name pvc) p then pvc else p)
                             (tracker c)\<rparr>,
            Inr pvc)"
  using assms by (simp add: PVC_Update_def Let_def propagate_same)

lemma PVC_Update_refused:
  assumes "reactor c (UpdateAction ns (PersistentVolumeClaim.Name pvc)) = Some err"
  shows "PVC_Update c ns pvc =
           (invoke c (UpdateAction ns (PersistentVolumeClaim.Name pvc)), Inl err)"
  using assms by (simp add: PVC_Update_def Let_def)

lemma tracker_get_replaced:
  assumes "tracker_get c ns name = Some old" and "named ns name pvc"
  shows "tracker_get (c'\<lparr>tracker := map (\<lambda>p. if named ns name p then pvc else p) (tracker c)\<rparr>)
           ns name = Some pvc"
  using assms by (simp add: tracker_get_def find_replace)

lemma index_None_len0: "len0 m \<Longrightarrow> index m k = None"
  by (cases m)
    (auto simp: len0_def index_def Mapping.is_empty_def keys_is_none_rep Option.is_none_def)

lemma index_annotate: "index (Annotations (annotate pvc key v)) key = Some v"
  by (simp add: annotate_def index_def)

section \<open>Bind and Unbind: conflicts\<close>

text \<open>
  C7. When the store returns the claim of the instance: Bind of a binding identifier whose
  annotation the claim has returns BindingAlreadyExists, and Unbind of a binding
  identifier whose annotation the claim does not have (the claim may have no annotations
  at all: a nil or an empty map) returns BindingDoesNotExist. In both cases the fetch is
  the only call made and the tracker is unchanged.
\<close>

theorem binding_conflicts:
  assumes "snd (PVC_Get (KubeClient b) (namespace_of b) i) = Inr pvc"
  shows "(index (Annotations pvc) (bindingIDAnnotation bid) \<noteq> None \<longrightarrow>
            Bind X b i bid bd a1 =
              (invoke (KubeClient b) (GetAction (namespace_of b) i), Inl ErrBindingAlreadyExists)) \<and>
         (len0 (Annotations pvc) \<or> index (Annotations pvc) (bindingIDAnnotation bid) = None \<longrightarrow>
            Unbind b i bid ud a2 =
              (invoke (KubeClient b) (GetAction (namespace_of b) i), Inl ErrBindingDoesNotExist)) \<and>
         tracker (invoke (KubeClient b) (GetAction (namespace_of b) i)) = tracker (KubeClient b)"
  using assms
  by (auto simp: Bind_def Unbind_def instanceExists_found tracker_invoke)

theorem binding_conflicts_witness:
  "snd (Bind scenario_externals
          (scenario_broker [annotate (scenario_claim ''1Gi'') (bindingIDAnnotation ''b1'') ''/mnt''])
          ''i1'' ''b1'' scenario_bind False) = Inl ErrBindingAlreadyExists \<and>
   snd (Unbind (scenario_broker [annotate (scenario_claim ''1Gi'') (bindingIDAnnotation ''b1'') ''/mnt''])
          ''i1'' ''foo'' scenario_unbind False) = Inl ErrBindingDoesNotExist \<and>
   snd (Unbind (scenario_broker [scenario_claim ''1Gi'']) ''i1'' ''b1'' scenario_unbind False) =
     Inl ErrBindingDoesNotExist \<and>
   tracker (fst (Unbind (scenario_broker [scenario_claim ''1Gi'']) ''i1'' ''b1'' scenario_unbind False)) =
     [scenario_claim ''1Gi'']"
proof -
  let ?bound = "annotate (scenario_claim ''1Gi'') (bindingIDAnnotation ''b1'') ''/mnt''"
  have bound: "snd (PVC_Get (KubeClient (scenario_broker [?bound]))
                 (namespace_of (scenario_broker [?bound])) ''i1'') = Inr ?bound"
    by (simp add: scenario_client scenario_namespace PVC_Get_fresh named_def annotate_def
          scenario_claim_def)
  have plain: "snd (PVC_Get (KubeClient (scenario_broker [scenario_claim ''1Gi'']))
                 (namespace_of (scenario_broker [scenario_claim ''1Gi''])) ''i1'') = Inr (scenario_claim ''1Gi'')"
    by (simp add: scenario_client scenario_namespace PVC_Get_fresh scenario_claim_named)
  have present: "index (Annotations ?bound) (bindingIDAnnotation ''b1'') = Some ''/mnt''"
    by (rule index_annotate)
  have other: "index (Annotations ?bound) (bindingIDAnnotation ''foo'') = None"
    by (simp add: annotate_def index_def bindingIDAnnotation_def scenario_claim_def)
  have none: "len0 (Annotations (scenario_claim ''1Gi''))"
    by (simp add: len0_def scenario_claim_def)
  show ?thesis
    using binding_conflicts [OF bound, of "''b1''" scenario_externals scenario_bind False
        scenario_unbind False]
      binding_conflicts [OF bound, of "''foo''" scenario_externals scenario_bind False
        scenario_unbind False]
      binding_conflicts [OF plain, of "''b1''" scenario_externals scenario_bind False
        scenario_unbind False]
      present other none
    by (simp add: scenario_client NewSimpleClientset_def tracker_invoke)
qed

section \<open>Bind: the path to the store\<close>

lemma Bind_reaches_update:
  assumes "snd (PVC_Get (KubeClient b) (namespace_of b) i) = Inr pvc"
    and "index (Annotations pvc) (bindingIDAnnotation bid) = None"
    and "(if BindDetails.RawParameters bd \<noteq> []
          then Unmarshal_userMountConfiguration X (BindDetails.RawParameters bd)
          else Inr userMountConfiguration_zero) = Inr um"
    and "reactor (KubeClient b) (UpdateAction (namespace_of b) i) = None"
  shows "Bind X b i bid bd a =
    ((invoke (invoke (KubeClient b) (GetAction (namespace_of b) i))
        (UpdateAction (namespace_of b) i))
       \<lparr>tracker :=
          map (\<lambda>p. if named (namespace_of b) i p
                    then annotate pvc (bindingIDAnnotation bid) (containerDir_of um bid) else p)
            (tracker (KubeClient b))\<rparr>,
     case StorageClassName pvc of
       None \<Rightarrow> Inl InvalidResourceState
     | Some sc \<Rightarrow>
         Inr \<lparr>Binding.Credentials = [(''volume_id'', i)],
              Binding.VolumeMounts =
                [\<lparr>Driver = sc, ContainerDir = containerDir_of um bid, Mode = ''rw'',
                  DeviceType = ''shared'', Device = \<lparr>VolumeId = i\<rparr>\<rparr>]\<rparr>)"
proof -
  let ?ns = "namespace_of b" and ?c = "KubeClient b"
  let ?c1 = "invoke ?c (GetAction ?ns i)"
  let ?pvc' = "annotate pvc (bindingIDAnnotation bid) (containerDir_of um bid)"
  from assms(1) have got: "reactor ?c (GetAction ?ns i) = None" "tracker_get ?c ?ns i = Some pvc"
    by (simp_all add: PVC_Get_found)
  then have nm: "PersistentVolumeClaim.Namespace pvc = ?ns" "PersistentVolumeClaim.Name pvc = i"
    using tracker_get_named [of ?c ?ns i pvc] by (simp_all add: named_def)
  have nm': "PersistentVolumeClaim.Namespace ?pvc' = ?ns" "PersistentVolumeClaim.Name ?pvc' = i"
    using nm by (simp_all add: annotate_def)
  have upd: "PVC_Update ?c1 ?ns ?pvc' =
      ((invoke ?c1 (UpdateAction ?ns i))
         \<lparr>tracker := map (\<lambda>p. if named ?ns i p then ?pvc' else p) (tracker ?c)\<rparr>, Inr ?pvc')"
    using PVC_Update_accepted [of ?c1 ?ns ?pvc' pvc] nm' got assms(4)
    by (simp add: tracker_get_invoke reactor_invoke tracker_invoke)
  have sc: "StorageClassName ?pvc' = StorageClassName pvc"
    by (simp add: annotate_def)
  have ie: "instanceExists b i = (?c1, Inr (Some pvc))"
    using assms(1) by (rule instanceExists_found)
  show ?thesis
  proof (cases "Directory um = []")
    case True
    with assms(2,3) nm upd sc show ?thesis
      unfolding Bind_def ie
      by (simp add: Let_def containerDir_of_def annotate_def InvalidResourceState_def
            split: option.splits)
  next
    case False
    with assms(2,3) nm upd sc show ?thesis
      unfolding Bind_def ie
      by (simp add: Let_def containerDir_of_def annotate_def InvalidResourceState_def
            split: option.splits)
  qed
qed

lemma Bind_parameters_refused:
  assumes "snd (PVC_Get (KubeClient b) (namespace_of b) i) = Inr pvc"
    and "index (Annotations pvc) (bindingIDAnnotation bid) = None"
    and "(if BindDetails.RawParameters bd \<noteq> []
          then Unmarshal_userMountConfiguration X (BindDetails.RawParameters bd)
          else Inr userMountConfiguration_zero) = Inl err"
  shows "Bind X b i bid bd a =
           (invoke (KubeClient b) (GetAction (namespace_of b) i),
            Inl (Wrap err ''error unmarshaling json user configuration''))"
  using assms(2,3) unfolding Bind_def instanceExists_found [OF assms(1)]
  by (simp split: if_splits)

lemma Bind_update_refused:
  assumes "snd (PVC_Get (KubeClient b) (namespace_of b) i) = Inr pvc"
    and "index (Annotations pvc) (bindingIDAnnotation bid) = None"
    and "(if BindDetails.RawParameters bd \<noteq> []
          then Unmarshal_userMountConfiguration X (BindDetails.RawParameters bd)
          else Inr userMountConfiguration_zero) = Inr um"
    and "reactor (KubeClient b) (UpdateAction (namespace_of b) i) = Some err"
  shows "Bind X b i bid bd a =
           (invoke (invoke (KubeClient b) (GetAction (namespace_of b) i))
              (UpdateAction (namespace_of b) i),
            Inl (Wrap err ''error updating persistent volume claim annotations for binding''))"
proof -
  let ?ns = "namespace_of b" and ?c = "KubeClient b"
  let ?c1 = "invoke ?c (GetAction ?ns i)"
  from assms(1) have "tracker_get ?c ?ns i = Some pvc"
    by (simp add: PVC_Get_found)
  then have nm: "PersistentVolumeClaim.Name pvc = i"
    using tracker_get_named [of ?c ?ns i pvc] by (simp add: named_def)
  have upd: "PVC_Update ?c1 ?ns pvc' = (invoke ?c1 (UpdateAction ?ns i), Inl err)"
    if "PersistentVolumeClaim.Name pvc' = i" for pvc' :: "'a PersistentVolumeClaim"
    using PVC_Update_refused [of ?c1 ?ns pvc' err] that assms(4) by (simp add: reactor_invoke)
  show ?thesis
    using assms(2,3) nm unfolding Bind_def instanceExists_found [OF assms(1)]
    by (simp add: Let_def upd split: if_splits)
qed


lemma annotation_of_bound:
  assumes "tracker_get c ns i = Some pvc"
  shows "annotation_of
           (c'\<lparr>tracker := map (\<lambda>p. if named ns i p then annotate pvc key v else p) (tracker c)\<rparr>)
           ns i key = Some v"
proof -
  from assms have "named ns i pvc"
    by (rule tracker_get_named)
  then have "named ns i (annotate pvc key v)"
    by (simp add: named_def annotate_def)
  with assms show ?thesis
    by (simp add: annotation_of_def tracker_get_replaced index_annotate)
qed

section \<open>Bind on a claim without a storage class\<close>

text \<open>
  C10. Let the store return the claim of the instance, the claim have no annotation for
  the binding identifier and no storage class. If the mount parameters parse and the store
  accepts the update, Bind returns InvalidResourceState, and the client it returns has
  recorded the fetch and the update and holds the claim with the binding annotation set
  to the mount directory. And whenever Bind returns InvalidResourceState for such a claim,
  the annotation is in the store: the error is reported after the update was persisted.
\<close>

theorem Bind_nil_storage_class:
  assumes "snd (PVC_Get (KubeClient b) (namespace_of b) i) = Inr pvc"
    and "index (Annotations pvc) (bindingIDAnnotation bid) = None"
    and "StorageClassName pvc = None"
  shows "((if BindDetails.RawParameters bd \<noteq> []
           then Unmarshal_userMountConfiguration X (BindDetails.RawParameters bd)
           else Inr userMountConfiguration_zero) = Inr um \<and>
          reactor (KubeClient b) (UpdateAction (namespace_of b) i) = None \<longrightarrow>
            snd (Bind X b i bid bd a) = Inl InvalidResourceState \<and>
            annotation_of (fst (Bind X b i bid bd a)) (namespace_of b) i (bindingIDAnnotation bid) =
              Some (containerDir_of um bid) \<and>
            actions (fst (Bind X b i bid bd a)) =
              actions (KubeClient b) @
                [GetAction (namespace_of b) i, UpdateAction (namespace_of b) i]) \<and>
         (snd (Bind X b i bid bd a) = Inl InvalidResourceState \<longrightarrow>
            annotation_of (fst (Bind X b i bid bd a)) (namespace_of b) i (bindingIDAnnotation bid)
              \<noteq> None)"
proof -
  let ?params = "if BindDetails.RawParameters bd \<noteq> []
                 then Unmarshal_userMountConfiguration X (BindDetails.RawParameters bd)
                 else Inr userMountConfiguration_zero"
  let ?upd = "UpdateAction (namespace_of b) i"
  from assms(1) have stored: "tracker_get (KubeClient b) (namespace_of b) i = Some pvc"
    by (simp add: PVC_Get_found)
  have forward:
    "snd (Bind X b i bid bd a) = Inl InvalidResourceState \<and>
     annotation_of (fst (Bind X b i bid bd a)) (namespace_of b) i (bindingIDAnnotation bid) =
       Some (containerDir_of um' bid) \<and>
     actions (fst (Bind X b i bid bd a)) =
       actions (KubeClient b) @ [GetAction (namespace_of b) i, ?upd]"
    if "?params = Inr um'" and "reactor (KubeClient b) ?upd = None" for um'
    using Bind_reaches_update [OF assms(1,2) that, of a] assms(3) stored
    by (simp add: annotation_of_bound actions_invoke)
  have backward:
    "annotation_of (fst (Bind X b i bid bd a)) (namespace_of b) i (bindingIDAnnotation bid)
       \<noteq> None"
    if err: "snd (Bind X b i bid bd a) = Inl InvalidResourceState"
  proof (cases ?params)
    case (Inl e)
    with err Bind_parameters_refused [OF assms(1,2) Inl, of a] show ?thesis
      by (simp add: InvalidResourceState_def)
  next
    case (Inr um')
    show ?thesis
    proof (cases "reactor (KubeClient b) ?upd")
      case None
      with forward [OF Inr] show ?thesis
        by simp
    next
      case (Some e)
      with err Bind_update_refused [OF assms(1,2) Inr Some, of a] show ?thesis
        by (simp add: InvalidResourceState_def)
    qed
  qed
  from forward backward show ?thesis
    by blast
qed

theorem Bind_nil_storage_class_witness:
  "snd (Bind scenario_externals (scenario_broker [(scenario_claim ''1Gi'')\<lparr>StorageClassName := None\<rparr>])
          ''i1'' ''b1'' scenario_bind False) = Inl InvalidResourceState \<and>
   annotation_of
     (fst (Bind scenario_externals (scenario_broker [(scenario_claim ''1Gi'')\<lparr>StorageClassName := None\<rparr>])
             ''i1'' ''b1'' scenario_bind False))
     ''eirini'' ''i1'' ''eirini-broker-binding-b1'' = Some ''/mnt'' \<and>
   actions
     (fst (Bind scenario_externals (scenario_broker [(scenario_claim ''1Gi'')\<lparr>StorageClassName := None\<rparr>])
             ''i1'' ''b1'' scenario_bind False)) =
     [GetAction ''eirini'' ''i1'', UpdateAction ''eirini'' ''i1'']"
proof -
  let ?claim = "(scenario_claim ''1Gi'')\<lparr>StorageClassName := None\<rparr>"
  have stored: "snd (PVC_Get (KubeClient (scenario_broker [?claim]))
                  (namespace_of (scenario_broker [?claim])) ''i1'') = Inr ?claim"
    by (simp add: scenario_client scenario_namespace PVC_Get_fresh named_def scenario_claim_def)
  have unbound: "index (Annotations ?claim) (bindingIDAnnotation ''b1'') = None"
    by (simp add: index_def scenario_claim_def)
  have nil: "StorageClassName ?claim = None"
    by simp
  have params: "(if BindDetails.RawParameters scenario_bind \<noteq> []
                 then Unmarshal_userMountConfiguration scenario_externals
                        (BindDetails.RawParameters scenario_bind)
                 else Inr userMountConfiguration_zero) = Inr \<lparr>Directory = ''/mnt''\<rparr>"
    by (simp add: scenario_bind_def scenario_externals_def)
  have accepted: "reactor (KubeClient (scenario_broker [?claim]))
                    (UpdateAction (namespace_of (scenario_broker [?claim])) ''i1'') = None"
    by (simp add: scenario_client NewSimpleClientset_def)
  show ?thesis
    using Bind_nil_storage_class [OF stored unbound nil, of scenario_bind scenario_externals
        "\<lparr>Directory = ''/mnt''\<rparr>" False] params accepted
    by (simp add: scenario_client scenario_namespace NewSimpleClientset_def containerDir_of_def
          bindingIDAnnotation_def)
qed

section \<open>GetBinding after Bind\<close>

lemma GetBinding_found:
  assumes "snd (PVC_Get (KubeClient b) (namespace_of b) i) = Inr pvc"
    and "index (Annotations pvc) (bindingIDAnnotation bid) = Some dir"
    and "StorageClassName pvc = Some sc"
  shows "GetBinding b i bid =
           (invoke (KubeClient b) (GetAction (namespace_of b) i),
            Inr \<lparr>GetBindingSpec.Credentials = [],
                 GetBindingSpec.VolumeMounts =
                   [\<lparr>Driver = sc, ContainerDir = dir, Mode = ''rw'', DeviceType = ''shared'',
                     Device = \<lparr>VolumeId = i\<rparr>\<rparr>]\<rparr>)"
proof -
  from assms(1) have "tracker_get (KubeClient b) (namespace_of b) i = Some pvc"
    by (simp add: PVC_Get_found)
  then have nm: "PersistentVolumeClaim.Name pvc = i"
    using tracker_get_named [of "KubeClient b" "namespace_of b" i pvc] by (simp add: named_def)
  from assms(2) have "\<not> len0 (Annotations pvc)"
    using index_None_len0 [of "Annotations pvc" "bindingIDAnnotation bid"] by auto
  with assms(2,3) nm show ?thesis
    unfolding GetBinding_def instanceExists_found [OF assms(1)] by simp
qed

lemma Bind_succeeded:
  assumes "Bind X b i bid bd a = (c2, Inr binding)"
  obtains pvc um sc where
    "snd (PVC_Get (KubeClient b) (namespace_of b) i) = Inr pvc"
    "index (Annotations pvc) (bindingIDAnnotation bid) = None"
    "(if BindDetails.RawParameters bd \<noteq> []
      then Unmarshal_userMountConfiguration X (BindDetails.RawParameters bd)
      else Inr userMountConfiguration_zero) = Inr um"
    "reactor (KubeClient b) (UpdateAction (namespace_of b) i) = None"
    "StorageClassName pvc = Some sc"
proof -
  let ?params = "if BindDetails.RawParameters bd \<noteq> []
                 then Unmarshal_userMountConfiguration X (BindDetails.RawParameters bd)
                 else Inr userMountConfiguration_zero"
  obtain pvc where found: "snd (PVC_Get (KubeClient b) (namespace_of b) i) = Inr pvc"
    using assms
    by (cases "PVC_Get (KubeClient b) (namespace_of b) i")
      (auto simp: Bind_def instanceExists_def split: sum.splits if_splits)
  have unbound: "index (Annotations pvc) (bindingIDAnnotation bid) = None"
    using assms unfolding Bind_def instanceExists_found [OF found]
    by (auto split: if_splits)
  obtain um where params: "?params = Inr um"
    using assms Bind_parameters_refused [OF found unbound, of bd X _ a]
    by (cases ?params) auto
  have accepted: "reactor (KubeClient b) (UpdateAction (namespace_of b) i) = None"
    using assms Bind_update_refused [OF found unbound params, of _ a]
    by (cases "reactor (KubeClient b) (UpdateAction (namespace_of b) i)") auto
  obtain sc where "StorageClassName pvc = Some sc"
    using assms Bind_reaches_update [OF found unbound params accepted, of a]
    by (cases "StorageClassName pvc") auto
  with found unbound params accepted show ?thesis
    by (rule that)
qed

text \<open>
  C5. After a Provision of an instance and a successful Bind of a binding identifier on
  it, GetBinding with the same two identifiers, run on the client Bind returned,
  succeeds, and its mount descriptors are those Bind returned. It leaves the tracker as
  it was.
\<close>

theorem Bind_GetBinding_roundtrip:
  assumes "Provision X b i pd a1 = (c1, Inr ps)"
    and "Bind X (b\<lparr>KubeClient := c1\<rparr>) i bid bd a2 = (c2, Inr binding)"
  shows "GetBinding (b\<lparr>KubeClient := c2\<rparr>) i bid =
           (invoke c2 (GetAction (namespace_of b) i),
            Inr \<lparr>GetBindingSpec.Credentials = [],
                 GetBindingSpec.VolumeMounts = Binding.VolumeMounts binding\<rparr>) \<and>
         tracker (invoke c2 (GetAction (namespace_of b) i)) = tracker c2"
proof -
  let ?b1 = "b\<lparr>KubeClient := c1\<rparr>" and ?b2 = "b\<lparr>KubeClient := c2\<rparr>"
  let ?ns = "namespace_of b"
  have ns: "namespace_of ?b1 = ?ns" "namespace_of ?b2 = ?ns"
    by (simp_all add: namespace_of_def)
  from assms(2) obtain pvc um sc where
    found: "snd (PVC_Get (KubeClient ?b1) (namespace_of ?b1) i) = Inr pvc" and
    unbound: "index (Annotations pvc) (bindingIDAnnotation bid) = None" and
    params: "(if BindDetails.RawParameters bd \<noteq> []
              then Unmarshal_userMountConfiguration X (BindDetails.RawParameters bd)
              else Inr userMountConfiguration_zero) = Inr um" and
    accepted: "reactor (KubeClient ?b1) (UpdateAction (namespace_of ?b1) i) = None" and
    sc: "StorageClassName pvc = Some sc"
    by (rule Bind_succeeded)
  let ?pvc' = "annotate pvc (bindingIDAnnotation bid) (containerDir_of um bid)"
  from found have got: "reactor c1 (GetAction ?ns i) = None" "tracker_get c1 ?ns i = Some pvc"
    by (simp_all add: PVC_Get_found ns)
  then have "named ?ns i pvc"
    using tracker_get_named by blast
  then have named': "named ?ns i ?pvc'"
    by (simp add: named_def annotate_def)
  from Bind_reaches_update [OF found unbound params accepted, of a2] assms(2) sc
  have c2: "c2 = (invoke (invoke c1 (GetAction ?ns i)) (UpdateAction ?ns i))
                   \<lparr>tracker := map (\<lambda>p. if named ?ns i p then ?pvc' else p) (tracker c1)\<rparr>"
    and binding: "Binding.VolumeMounts binding =
                    [\<lparr>Driver = sc, ContainerDir = containerDir_of um bid, Mode = ''rw'',
                      DeviceType = ''shared'', Device = \<lparr>VolumeId = i\<rparr>\<rparr>]"
    by (auto simp: ns)
  have "tracker_get c2 ?ns i = Some ?pvc'"
    unfolding c2 using got(2) named' by (rule tracker_get_replaced)
  moreover have "reactor c2 (GetAction ?ns i) = None"
    using got(1) by (simp add: c2 reactor_invoke)
  ultimately have found2: "snd (PVC_Get (KubeClient ?b2) (namespace_of ?b2) i) = Inr ?pvc'"
    by (simp add: PVC_Get_found ns)
  have "index (Annotations ?pvc') (bindingIDAnnotation bid) = Some (containerDir_of um bid)"
    by (rule index_annotate)
  moreover have "StorageClassName ?pvc' = Some sc"
    using sc by (simp add: annotate_def)
  ultimately show ?thesis
    using GetBinding_found [OF found2] binding by (simp add: ns tracker_invoke)
qed

theorem Bind_GetBinding_roundtrip_witness:
  "snd (Provision scenario_externals (scenario_broker []) ''i1'' scenario_provision False) =
     Inr ProvisionedServiceSpec_zero \<and>
   Binding.VolumeMounts
     (projr (snd (Bind scenario_externals
        ((scenario_broker [])\<lparr>KubeClient :=
           (NewSimpleClientset [scenario_claim ''1Gi''])
             \<lparr>actions := [GetAction ''eirini'' ''i1'', CreateAction ''eirini'' ''i1'']\<rparr>\<rparr>)
        ''i1'' ''b1'' scenario_bind False))) =
     [\<lparr>Driver = ''gold'', ContainerDir = ''/mnt'', Mode = ''rw'', DeviceType = ''shared'',
       Device = \<lparr>VolumeId = ''i1''\<rparr>\<rparr>] \<and>
   snd (GetBinding
     ((scenario_broker [])\<lparr>KubeClient :=
        (NewSimpleClientset
           [annotate (scenario_claim ''1Gi'') ''eirini-broker-binding-b1'' ''/mnt''])
          \<lparr>actions := [GetAction ''eirini'' ''i1'', CreateAction ''eirini'' ''i1'',
                        GetAction ''eirini'' ''i1'', UpdateAction ''eirini'' ''i1'']\<rparr>\<rparr>)
     ''i1'' ''b1'') =
     Inr \<lparr>GetBindingSpec.Credentials = [],
          GetBindingSpec.VolumeMounts =
            [\<lparr>Driver = ''gold'', ContainerDir = ''/mnt'', Mode = ''rw'', DeviceType = ''shared'',
              Device = \<lparr>VolumeId = ''i1''\<rparr>\<rparr>]\<rparr>"
proof -
  let ?b = "scenario_broker [] :: string KubeVolumeBroker"
  let ?c1 = "(NewSimpleClientset [scenario_claim ''1Gi''])
               \<lparr>actions := [GetAction ''eirini'' ''i1'', CreateAction ''eirini'' ''i1'']\<rparr>"
  let ?c2 = "(NewSimpleClientset
                [annotate (scenario_claim ''1Gi'') ''eirini-broker-binding-b1'' ''/mnt''])
               \<lparr>actions := [GetAction ''eirini'' ''i1'', CreateAction ''eirini'' ''i1'',
                             GetAction ''eirini'' ''i1'', UpdateAction ''eirini'' ''i1'']\<rparr>"
  let ?binding = "\<lparr>Binding.Credentials = [(''volume_id'', ''i1'')],
                   Binding.VolumeMounts =
                     [\<lparr>Driver = ''gold'', ContainerDir = ''/mnt'', Mode = ''rw'',
                       DeviceType = ''shared'', Device = \<lparr>VolumeId = ''i1''\<rparr>\<rparr>]\<rparr>"
  have provisioned: "Provision scenario_externals ?b ''i1'' scenario_provision False =
      (?c1, Inr ProvisionedServiceSpec_zero)"
    by (simp add: Provision_def instanceExists_def client_defs scenario_defs scenario_claim_def
          userConfiguration_zero_def ProvisionedServiceSpec_zero_def Let_def)
  have bound: "Bind scenario_externals (?b\<lparr>KubeClient := ?c1\<rparr>) ''i1'' ''b1'' scenario_bind False =
      (?c2, Inr ?binding)"
    by (simp add: Bind_def instanceExists_def client_defs scenario_defs scenario_claim_def
          annotate_def index_def bindingIDAnnotation_def Let_def)
  show ?thesis
    using Bind_GetBinding_roundtrip [OF provisioned bound] provisioned bound
    by simp
qed


section \<open>Provision: creating the claim\<close>

lemma PVC_Create_accepted:
  assumes "tracker_get c ns (PersistentVolumeClaim.Name pvc) = None"
    and "PersistentVolumeClaim.Namespace pvc = []"
    and "reactor c (CreateAction ns (PersistentVolumeClaim.Name pvc)) = None"
  shows "PVC_Create c ns pvc =
           ((invoke c (CreateAction ns (PersistentVolumeClaim.Name pvc)))
              \<lparr>tracker := tracker c @ [pvc\<lparr>PersistentVolumeClaim.Namespace := ns\<rparr>]\<rparr>,
            Inr (pvc\<lparr>PersistentVolumeClaim.Namespace := ns\<rparr>))"
  using assms by (simp add: PVC_Create_def Let_def propagate_def)

lemma Provision_resolves:
  assumes "ProvisionDetails.PlanID d \<noteq> []"
    and "find (\<lambda>p. Plan.ID p = ProvisionDetails.PlanID d) (plans_of b) = Some plan"
    and "snd (PVC_Get (KubeClient b) (namespace_of b) i) = Inl e" and "IsNotFound e"
    and "(if ProvisionDetails.RawParameters d \<noteq> []
          then Unmarshal_userConfiguration X (ProvisionDetails.RawParameters d)
          else Inr userConfiguration_zero) = Inr uc"
  shows "Provision X b i d a =
     (let c = invoke (KubeClient b) (GetAction (namespace_of b) i) in
      if spec_effective_size uc plan = [] then (c, Inl PlanHasNoDefaultSize)
      else
        case ParseQuantity X (spec_effective_size uc plan) of
          Inl err \<Rightarrow> (c, Inl (Wrap err ''invalid quantity string''))
        | Inr q \<Rightarrow>
           (case PVC_Create c (namespace_of b)
                   (claim_for [] i d plan (spec_effective_access_mode uc plan) q) of
              (c', Inl err) \<Rightarrow> (c', Inl (Wrap err ''error provisioning''))
            | (c', Inr created) \<Rightarrow> (c', Inr ProvisionedServiceSpec_zero)))"
  unfolding Provision_def instanceExists_absent [OF assms(3,4)]
  using assms(1,2,5)
  by (simp add: Let_def spec_effective_size_def spec_effective_access_mode_def claim_for_def
        ProvisionedServiceSpec_zero_def PlanHasNoDefaultSize_def
        cong: sum.case_cong prod.case_cong)

lemma Provision_creates:
  assumes "ProvisionDetails.PlanID d \<noteq> []"
    and "find (\<lambda>p. Plan.ID p = ProvisionDetails.PlanID d) (plans_of b) = Some plan"
    and "snd (PVC_Get (KubeClient b) (namespace_of b) i) = Inl e" and "IsNotFound e"
    and "(if ProvisionDetails.RawParameters d \<noteq> []
          then Unmarshal_userConfiguration X (ProvisionDetails.RawParameters d)
          else Inr userConfiguration_zero) = Inr uc"
    and "spec_effective_size uc plan \<noteq> []"
    and "ParseQuantity X (spec_effective_size uc plan) = Inr q"
    and "tracker_get (KubeClient b) (namespace_of b) i = None"
    and "reactor (KubeClient b) (CreateAction (namespace_of b) i) = None"
  shows "Provision X b i d a =
     ((invoke (invoke (KubeClient b) (GetAction (namespace_of b) i))
         (CreateAction (namespace_of b) i))
        \<lparr>tracker := tracker (KubeClient b) @
           [claim_for (namespace_of b) i d plan (spec_effective_access_mode uc plan) q]\<rparr>,
      Inr ProvisionedServiceSpec_zero)"
proof -
  let ?c = "invoke (KubeClient b) (GetAction (namespace_of b) i)"
  let ?req = "claim_for [] i d plan (spec_effective_access_mode uc plan) q"
  have req: "PersistentVolumeClaim.Name ?req = i" "PersistentVolumeClaim.Namespace ?req = []"
    "?req\<lparr>PersistentVolumeClaim.Namespace := namespace_of b\<rparr> =
       claim_for (namespace_of b) i d plan (spec_effective_access_mode uc plan) q"
    by (simp_all add: claim_for_def)
  have "PVC_Create ?c (namespace_of b) ?req =
          ((invoke ?c (CreateAction (namespace_of b) i))
             \<lparr>tracker := tracker ?c @
                [claim_for (namespace_of b) i d plan (spec_effective_access_mode uc plan) q]\<rparr>,
           Inr (claim_for (namespace_of b) i d plan (spec_effective_access_mode uc plan) q))"
    using PVC_Create_accepted [of ?c "namespace_of b" ?req] assms(8,9) req
    by (simp add: tracker_get_invoke reactor_invoke)
  with assms(6,7) show ?thesis
    by (simp add: Provision_resolves [OF assms(1-5)] Let_def tracker_invoke)
qed

section \<open>Provision: the size and the access mode\<close>

text \<open>
  C3. Let Provision get as far as its user parameters: the plan is resolved, the store
  answers the fetch with "not found", and the parameters parse to \<open>uc\<close> (the zero value
  when there are none). If the user's size and the plan's default size are both empty,
  Provision fails with PlanHasNoDefaultSize. Otherwise the string given to the quantity
  parser is the user's size if it is not empty and the plan's default size if it is; and
  when the quantity parses and the store accepts the new claim, the claim stored has that
  quantity as its requested storage and, as its one access mode, the user's mode if it is
  not empty, else the plan's default mode if that is not empty, else "ReadWriteMany".
\<close>

theorem Provision_effective_size_and_access_mode:
  assumes "ProvisionDetails.PlanID d \<noteq> []"
    and "find (\<lambda>p. Plan.ID p = ProvisionDetails.PlanID d) (plans_of b) = Some plan"
    and "snd (PVC_Get (KubeClient b) (namespace_of b) i) = Inl e" and "IsNotFound e"
    and "(if ProvisionDetails.RawParameters d \<noteq> []
          then Unmarshal_userConfiguration X (ProvisionDetails.RawParameters d)
          else Inr userConfiguration_zero) = Inr uc"
  shows "(Size uc = [] \<and> DefaultSize plan = [] \<longrightarrow>
            Provision X b i d a =
              (invoke (KubeClient b) (GetAction (namespace_of b) i), Inl PlanHasNoDefaultSize)) \<and>
         (spec_effective_size uc plan \<noteq> [] \<and>
          ParseQuantity X (spec_effective_size uc plan) = Inl err \<longrightarrow>
            Provision X b i d a =
              (invoke (KubeClient b) (GetAction (namespace_of b) i),
               Inl (Wrap err ''invalid quantity string''))) \<and>
         (spec_effective_size uc plan \<noteq> [] \<and>
          ParseQuantity X (spec_effective_size uc plan) = Inr q \<and>
          tracker_get (KubeClient b) (namespace_of b) i = None \<and>
          reactor (KubeClient b) (CreateAction (namespace_of b) i) = None \<longrightarrow>
            snd (Provision X b i d a) = Inr ProvisionedServiceSpec_zero \<and>
            tracker (fst (Provision X b i d a)) =
              tracker (KubeClient b) @
                [claim_for (namespace_of b) i d plan (spec_effective_access_mode uc plan) q])"
proof (intro conjI impI)
  assume "Size uc = [] \<and> DefaultSize plan = []"
  then show "Provision X b i d a =
      (invoke (KubeClient b) (GetAction (namespace_of b) i), Inl PlanHasNoDefaultSize)"
    by (simp add: Provision_resolves [OF assms] spec_effective_size_def)
next
  assume "spec_effective_size uc plan \<noteq> [] \<and>
    ParseQuantity X (spec_effective_size uc plan) = Inl err"
  then show "Provision X b i d a =
      (invoke (KubeClient b) (GetAction (namespace_of b) i),
       Inl (Wrap err ''invalid quantity string''))"
    by (simp add: Provision_resolves [OF assms])
next
  assume h: "spec_effective_size uc plan \<noteq> [] \<and>
    ParseQuantity X (spec_effective_size uc plan) = Inr q \<and>
    tracker_get (KubeClient b) (namespace_of b) i = None \<and>
    reactor (KubeClient b) (CreateAction (namespace_of b) i) = None"
  then have created: "Provision X b i d a =
     ((invoke (invoke (KubeClient b) (GetAction (namespace_of b) i))
         (CreateAction (namespace_of b) i))
        \<lparr>tracker := tracker (KubeClient b) @
           [claim_for (namespace_of b) i d plan (spec_effective_access_mode uc plan) q]\<rparr>,
      Inr ProvisionedServiceSpec_zero)"
    using Provision_creates [OF assms, where q = q and a = a] by simp
  from created show "snd (Provision X b i d a) = Inr ProvisionedServiceSpec_zero"
    by simp
  from created show "tracker (fst (Provision X b i d a)) =
      tracker (KubeClient b) @
        [claim_for (namespace_of b) i d plan (spec_effective_access_mode uc plan) q]"
    by simp
qed


theorem Provision_effective_size_and_access_mode_witness:
  "snd (Provision scenario_externals
          ((scenario_broker [])\<lparr>Config := scenario_config [scenario_plan\<lparr>DefaultSize := []\<rparr>]\<rparr>)
          ''i1'' scenario_provision False) = Inl PlanHasNoDefaultSize \<and>
   tracker (fst (Provision scenario_externals (scenario_broker []) ''i1'' scenario_provision
                   False)) = [scenario_claim ''1Gi''] \<and>
   tracker (fst (Provision scenario_externals (scenario_broker []) ''i1''
                   (scenario_provision\<lparr>ProvisionDetails.RawParameters :=
                      ''{\"size\":\"2Gi\",\"access_mode\":\"ReadOnlyMany\"}''\<rparr>) False)) =
     [(scenario_claim ''2Gi'')\<lparr>AccessModes := [''ReadOnlyMany'']\<rparr>]"
  using
    Provision_effective_size_and_access_mode
      [where X = scenario_externals and i = "''i1''" and d = scenario_provision and a = False
         and b = "(scenario_broker [])\<lparr>Config :=
                    scenario_config [scenario_plan\<lparr>DefaultSize := []\<rparr>]\<rparr>"
         and plan = "scenario_plan\<lparr>DefaultSize := []\<rparr>"
         and e = "StatusError StatusReasonNotFound ''i1''" and uc = userConfiguration_zero]
    Provision_effective_size_and_access_mode
      [where X = scenario_externals and i = "''i1''" and d = scenario_provision and a = False
         and b = "scenario_broker []" and plan = scenario_plan and q = "''1Gi''"
         and e = "StatusError StatusReasonNotFound ''i1''" and uc = userConfiguration_zero]
    Provision_effective_size_and_access_mode
      [where X = scenario_externals and i = "''i1''" and a = False
         and d = "scenario_provision\<lparr>ProvisionDetails.RawParameters :=
                    ''{\"size\":\"2Gi\",\"access_mode\":\"ReadOnlyMany\"}''\<rparr>"
         and b = "scenario_broker []" and plan = scenario_plan and q = "''2Gi''"
         and e = "StatusError StatusReasonNotFound ''i1''"
         and uc = "\<lparr>Size = ''2Gi'', AccessMode = ''ReadOnlyMany''\<rparr>"]
  by (simp add: client_defs scenario_defs userConfiguration_zero_def spec_effective_size_def
        spec_effective_access_mode_def claim_for_def scenario_claim_def)


section \<open>The scenario: Provision, Bind, Unbind, Deprovision\<close>

text \<open>
  C6, as amended. The catalog holds the single plan p1 (class gold, default size 1Gi) and
  the store is empty. Provision of i1 with plan p1 and no parameters creates a claim named
  i1 with the capacity 1Gi parses to, storage class gold and the access mode
  ReadWriteMany. Bind of b1 on i1 with the parameters {"dir":"/mnt"} sets the annotation
  "eirini-broker-binding-b1" of the claim to "/mnt" and returns a mount descriptor with
  driver gold, container path /mnt and device identifier i1. Unbind of b1 removes that
  annotation, and Deprovision of i1 deletes the claim. The two library parsers are any
  that read "1Gi" as a quantity and {"dir":"/mnt"} as the directory /mnt.
\<close>

theorem scenario_lifecycle:
  assumes "ParseQuantity X ''1Gi'' = Inr q"
    and "Unmarshal_userMountConfiguration X ''{\"dir\":\"/mnt\"}'' = Inr \<lparr>Directory = ''/mnt''\<rparr>"
  shows
    "let b = scenario_broker [];
         (c1, r1) = Provision X b ''i1'' scenario_provision a1;
         (c2, r2) = Bind X (b\<lparr>KubeClient := c1\<rparr>) ''i1'' ''b1'' scenario_bind a2;
         (c3, r3) = Unbind (b\<lparr>KubeClient := c2\<rparr>) ''i1'' ''b1'' scenario_unbind a3;
         (c4, r4) = Deprovision (b\<lparr>KubeClient := c3\<rparr>) ''i1'' scenario_deprovision a4
     in r1 = Inr ProvisionedServiceSpec_zero \<and>
        tracker c1 = [scenario_claim q] \<and>
        PersistentVolumeClaim.Name (scenario_claim q) = ''i1'' \<and>
        Mapping.lookup (Requests (scenario_claim q)) ''storage'' = Some q \<and>
        StorageClassName (scenario_claim q) = Some ''gold'' \<and>
        AccessModes (scenario_claim q) = [''ReadWriteMany''] \<and>
        r2 = Inr \<lparr>Binding.Credentials = [(''volume_id'', ''i1'')],
                  Binding.VolumeMounts =
                    [\<lparr>Driver = ''gold'', ContainerDir = ''/mnt'', Mode = ''rw'',
                      DeviceType = ''shared'', Device = \<lparr>VolumeId = ''i1''\<rparr>\<rparr>]\<rparr> \<and>
        tracker c2 = [annotate (scenario_claim q) ''eirini-broker-binding-b1'' ''/mnt''] \<and>
        annotation_of c1 ''eirini'' ''i1'' ''eirini-broker-binding-b1'' = None \<and>
        annotation_of c2 ''eirini'' ''i1'' ''eirini-broker-binding-b1'' = Some ''/mnt'' \<and>
        r3 = Inr UnbindSpec_zero \<and>
        tracker c3 =
          [unannotate (annotate (scenario_claim q) ''eirini-broker-binding-b1'' ''/mnt'')
             ''eirini-broker-binding-b1''] \<and>
        annotation_of c3 ''eirini'' ''i1'' ''eirini-broker-binding-b1'' = None \<and>
        r4 = Inr DeprovisionServiceSpec_zero \<and>
        tracker c4 = [] \<and>
        actions c4 =
          [GetAction ''eirini'' ''i1'', CreateAction ''eirini'' ''i1'',
           GetAction ''eirini'' ''i1'', UpdateAction ''eirini'' ''i1'',
           GetAction ''eirini'' ''i1'', UpdateAction ''eirini'' ''i1'',
           GetAction ''eirini'' ''i1'', DeleteAction ''eirini'' ''i1'']"
proof -
  let ?b = "scenario_broker [] :: 'a KubeVolumeBroker"
  let ?key = "''eirini-broker-binding-b1''"
  let ?c1 = "(NewSimpleClientset [scenario_claim q])
               \<lparr>actions := [GetAction ''eirini'' ''i1'', CreateAction ''eirini'' ''i1'']\<rparr>"
  let ?c2 = "(NewSimpleClientset [annotate (scenario_claim q) ?key ''/mnt''])
               \<lparr>actions := [GetAction ''eirini'' ''i1'', CreateAction ''eirini'' ''i1'',
                             GetAction ''eirini'' ''i1'', UpdateAction ''eirini'' ''i1'']\<rparr>"
  let ?c3 = "(NewSimpleClientset [unannotate (annotate (scenario_claim q) ?key ''/mnt'') ?key])
               \<lparr>actions := [GetAction ''eirini'' ''i1'', CreateAction ''eirini'' ''i1'',
                             GetAction ''eirini'' ''i1'', UpdateAction ''eirini'' ''i1'',
                             GetAction ''eirini'' ''i1'', UpdateAction ''eirini'' ''i1'']\<rparr>"
  let ?c4 = "(NewSimpleClientset [])
               \<lparr>actions := [GetAction ''eirini'' ''i1'', CreateAction ''eirini'' ''i1'',
                             GetAction ''eirini'' ''i1'', UpdateAction ''eirini'' ''i1'',
                             GetAction ''eirini'' ''i1'', UpdateAction ''eirini'' ''i1'',
                             GetAction ''eirini'' ''i1'', DeleteAction ''eirini'' ''i1'']\<rparr>"
  have step1: "Provision X ?b ''i1'' scenario_provision a1 = (?c1, Inr ProvisionedServiceSpec_zero)"
    using assms(1)
    by (simp add: Provision_def instanceExists_def client_defs scenario_defs scenario_claim_def
          userConfiguration_zero_def ProvisionedServiceSpec_zero_def Let_def)
  have step2: "Bind X (?b\<lparr>KubeClient := ?c1\<rparr>) ''i1'' ''b1'' scenario_bind a2 =
      (?c2, Inr \<lparr>Binding.Credentials = [(''volume_id'', ''i1'')],
                 Binding.VolumeMounts =
                   [\<lparr>Driver = ''gold'', ContainerDir = ''/mnt'', Mode = ''rw'',
                     DeviceType = ''shared'', Device = \<lparr>VolumeId = ''i1''\<rparr>\<rparr>]\<rparr>)"
    using assms(2)
    by (simp add: Bind_def instanceExists_def client_defs scenario_defs scenario_claim_def
          annotate_def index_def bindingIDAnnotation_def Let_def)
  have step3: "Unbind (?b\<lparr>KubeClient := ?c2\<rparr>) ''i1'' ''b1'' scenario_unbind a3 =
      (?c3, Inr UnbindSpec_zero)"
    by (simp add: Unbind_def instanceExists_def client_defs scenario_defs scenario_claim_def
          annotate_def unannotate_def index_def len0_def bindingIDAnnotation_def Let_def)
  have step4: "Deprovision (?b\<lparr>KubeClient := ?c3\<rparr>) ''i1'' scenario_deprovision a4 =
      (?c4, Inr DeprovisionServiceSpec_zero)"
    by (simp add: Deprovision_def instanceExists_def client_defs scenario_defs scenario_claim_def
          annotate_def unannotate_def Let_def)
  have observed:
    "annotation_of ?c1 ''eirini'' ''i1'' ?key = None"
    "annotation_of ?c2 ''eirini'' ''i1'' ?key = Some ''/mnt''"
    "annotation_of ?c3 ''eirini'' ''i1'' ?key = None"
    by (simp_all add: annotation_of_def client_defs scenario_claim_def annotate_def
          unannotate_def index_def)
  have fields:
    "PersistentVolumeClaim.Name (scenario_claim q) = ''i1''"
    "Mapping.lookup (Requests (scenario_claim q)) ''storage'' = Some q"
    "StorageClassName (scenario_claim q) = Some ''gold''"
    "AccessModes (scenario_claim q) = [''ReadWriteMany'']"
    by (simp_all add: scenario_claim_def)
  show ?thesis
    unfolding Let_def step1 prod.case step2 step3 step4
    using observed fields by (simp add: NewSimpleClientset_def)
qed

theorem scenario_lifecycle_witness:
  "ParseQuantity scenario_externals ''1Gi'' = Inr ''1Gi'' \<and>
   Unmarshal_userMountConfiguration scenario_externals ''{\"dir\":\"/mnt\"}'' =
     Inr \<lparr>Directory = ''/mnt''\<rparr> \<and>
   (let b = scenario_broker [];
        (c1, r1) = Provision scenario_externals b ''i1'' scenario_provision False;
        (c2, r2) = Bind scenario_externals (b\<lparr>KubeClient := c1\<rparr>) ''i1'' ''b1'' scenario_bind False;
        (c3, r3) = Unbind (b\<lparr>KubeClient := c2\<rparr>) ''i1'' ''b1'' scenario_unbind False;
        (c4, r4) = Deprovision (b\<lparr>KubeClient := c3\<rparr>) ''i1'' scenario_deprovision False
    in tracker c1 = [scenario_claim ''1Gi''] \<and>
       annotation_of c2 ''eirini'' ''i1'' ''eirini-broker-binding-b1'' = Some ''/mnt'' \<and>
       annotation_of c3 ''eirini'' ''i1'' ''eirini-broker-binding-b1'' = None \<and>
       tracker c4 = [])"
proof -
  have quantity: "ParseQuantity scenario_externals ''1Gi'' = Inr ''1Gi''"
    by (simp add: scenario_externals_def)
  have directory: "Unmarshal_userMountConfiguration scenario_externals ''{\"dir\":\"/mnt\"}'' =
      Inr \<lparr>Directory = ''/mnt''\<rparr>"
    by (simp add: scenario_externals_def)
  show ?thesis
    using scenario_lifecycle [OF quantity directory, of False False False False]
      quantity directory
    by (simp add: Let_def split: prod.splits)
qed

text \<open>
  C6, as the specification words it, names the annotation "binding-b1". After the Bind of
  the scenario that key is not bound to "/mnt": the broker prefixes the binding
  identifier with "eirini-broker-binding-".
\<close>

theorem scenario_annotation_key_counterexample:
  "annotation_of
     (fst (Bind scenario_externals
             ((scenario_broker [])\<lparr>KubeClient :=
                fst (Provision scenario_externals (scenario_broker []) ''i1'' scenario_provision
                       False)\<rparr>)
             ''i1'' ''b1'' scenario_bind False))
     ''eirini'' ''i1'' ''binding-b1'' \<noteq> Some ''/mnt''"
  by (simp add: Provision_def Bind_def instanceExists_def client_defs scenario_defs
        annotation_of_def userConfiguration_zero_def annotate_def index_def
        bindingIDAnnotation_def Let_def)


section \<open>Services: the listing and the free flag\<close>

lemma Services_loop_list:
  "length planList = idx + length ps \<Longrightarrow>
     snd (Services_loop a ps idx h planList) = take idx planList @ map (listed a) ps"
proof (induction ps arbitrary: idx h planList)
  case Nil
  then show ?case by simp
next
  case (Cons p ps)
  let ?pl = "planList[idx := listed a p]"
  from Cons.prems have len: "length ?pl = Suc idx + length ps" and idx: "idx < length planList"
    by simp_all
  have "take (Suc idx) ?pl = take idx planList @ [listed a p]"
    using idx by (simp add: take_Suc_conv_app_nth)
  with Cons.IH [OF len, of "assign h a p"] show ?case
    by (simp add: Let_def listed_def [symmetric])
qed

lemma Services_loop_heap:
  "vars (fst (Services_loop a ps idx h planList)) =
     (if ps = [] then vars h else Mapping.update a (last ps) (vars h))"
proof (induction ps arbitrary: idx h planList)
  case Nil
  then show ?case by simp
next
  case (Cons p ps)
  show ?case
    by (simp add: Cons.IH Let_def assign_def Mapping.update_update)
qed

text \<open>
  Every catalog is listed plan by plan, in order, with its identifiers, names and
  descriptions; but the free flag every listed plan points to is the same variable, and
  once the loop is over it holds the flag of the last plan.
\<close>

lemma Services_listing:
  "\<exists>h' svc. Services b h = (h', Inr [svc]) \<and>
     Service.Plans svc = map (listed (brk h)) (ServiceConfiguration.Plans (Config.ServiceConfiguration (Config b))) \<and>
     (ServiceConfiguration.Plans (Config.ServiceConfiguration (Config b)) \<noteq> [] \<longrightarrow>
        (\<forall>sp \<in> set (Service.Plans svc).
           free_tier h' sp =
             Some (Plan.Free (last (ServiceConfiguration.Plans (Config.ServiceConfiguration (Config b)))))))"
proof -
  let ?plans = "ServiceConfiguration.Plans (Config.ServiceConfiguration (Config b))"
  let ?h0 = "fst (new_var h Plan_zero)"
  let ?pl0 = "replicate (length ?plans) ServicePlan_zero"
  obtain h' pl where loop: "Services_loop (brk h) ?plans 0 ?h0 ?pl0 = (h', pl)"
    by (cases "Services_loop (brk h) ?plans 0 ?h0 ?pl0")
  have pl: "pl = map (listed (brk h)) ?plans"
    using Services_loop_list [of ?pl0 0 ?plans "brk h" ?h0] loop by simp
  have h': "vars h' = (if ?plans = [] then vars ?h0 else Mapping.update (brk h) (last ?plans) (vars ?h0))"
    using Services_loop_heap [of "brk h" ?plans 0 ?h0 ?pl0] loop by simp
  have free: "free_tier h' (listed (brk h) p) = Some (Plan.Free (last ?plans))"
    if "?plans \<noteq> []" for p
    using that h' by (simp add: free_tier_def listed_def)
  show ?thesis
    using loop pl free
    by (auto simp: Services_def new_var_def Let_def)
qed

text \<open>
  C4. The listing of the two plans of the configuration test (the first free, the second
  not) has one service with the two plans in order, and reports both as not free: the
  free flag of the first listed plan is not the flag of the first configured plan.
\<close>

theorem Services_free_flag_aliased:
  "(case Services test_broker heap_empty of
      (h, Inr [svc]) \<Rightarrow>
        map ServicePlan.ID (Service.Plans svc) = [''someid'', ''someotherid''] \<and>
        map (free_tier h) (Service.Plans svc) = [Some False, Some False]
    | _ \<Rightarrow> False) \<and>
   map Plan.Free (plans_of test_broker) = [True, False]"
  by (simp add: Services_def new_var_def assign_def free_tier_def heap_empty_def Let_def
        test_broker_def test_plans_def scenario_config_def plans_of_def ServicePlan_zero_def
        Plan_zero_def)


end
